theory Spec2Isabelle
  imports Main
begin

section \<open>Strings and the header collection of the runtime\<close>

text \<open>
  Strings are lists of characters. \<open>toLowerCase\<close> and \<open>toUpperCase\<close> are the two
  built-in case conversions the router calls; the model converts the letters A-Z and a-z
  and leaves every other character as it is. \<open>join\<close> is \<open>Array.prototype.join\<close>.
\<close>

definition upperCaseLetters :: string where
  "upperCaseLetters = ''ABCDEFGHIJKLMNOPQRSTUVWXYZ''"

definition lowerCaseLetters :: string where
  "lowerCaseLetters = ''abcdefghijklmnopqrstuvwxyz''"

definition toLowerCaseChar :: "char \<Rightarrow> char" where
  "toLowerCaseChar c =
     (case map_of (zip upperCaseLetters lowerCaseLetters) c of Some d \<Rightarrow> d | None \<Rightarrow> c)"

definition toLowerCase :: "string \<Rightarrow> string" where
  "toLowerCase s = map toLowerCaseChar s"

definition toUpperCaseChar :: "char \<Rightarrow> char" where
  "toUpperCaseChar c =
     (case map_of (zip lowerCaseLetters upperCaseLetters) c of Some d \<Rightarrow> d | None \<Rightarrow> c)"

definition toUpperCase :: "string \<Rightarrow> string" where
  "toUpperCase s = map toUpperCaseChar s"

fun join :: "string \<Rightarrow> string list \<Rightarrow> string" where
  "join sep [] = []"
| "join sep [x] = x"
| "join sep (x # y # ys) = x @ sep @ join sep (y # ys)"

text \<open>
  The \<open>Headers\<close> collection of the fetch runtime: a multi-map kept as a list of
  (name, value) entries in insertion order, names stored in lower case so that every
  operation is case-insensitive. \<open>set\<close> overwrites the first entry of that name and
  drops the others, \<open>append\<close> adds one more entry, \<open>get\<close> joins all values of the
  name with a comma and a space, and is \<open>None\<close> (null) when there is none.
\<close>

type_synonym Headers = "(string \<times> string) list"

definition headers_has :: "string \<Rightarrow> Headers \<Rightarrow> bool" where
  "headers_has name hs = list_ex (\<lambda>e. fst e = toLowerCase name) hs"

definition headers_getAll :: "string \<Rightarrow> Headers \<Rightarrow> string list" where
  "headers_getAll name hs = map snd (filter (\<lambda>e. fst e = toLowerCase name) hs)"

definition headers_get :: "string \<Rightarrow> Headers \<Rightarrow> string option" where
  "headers_get name hs =
     (case headers_getAll name hs of [] \<Rightarrow> None | v # vs \<Rightarrow> Some (join '', '' (v # vs)))"

definition headers_delete :: "string \<Rightarrow> Headers \<Rightarrow> Headers" where
  "headers_delete name hs = filter (\<lambda>e. fst e \<noteq> toLowerCase name) hs"

definition headers_append :: "string \<Rightarrow> string \<Rightarrow> Headers \<Rightarrow> Headers" where
  "headers_append name v hs = hs @ [(toLowerCase name, v)]"

fun set_first :: "string \<Rightarrow> string \<Rightarrow> Headers \<Rightarrow> Headers" where
  "set_first n v [] = [(n, v)]"
| "set_first n v (e # hs) =
     (if fst e = n then (n, v) # filter (\<lambda>e'. fst e' \<noteq> n) hs else e # set_first n v hs)"

definition headers_set :: "string \<Rightarrow> string \<Rightarrow> Headers \<Rightarrow> Headers" where
  "headers_set name v hs = set_first (toLowerCase name) v hs"

section \<open>Data model\<close>

text \<open>
  The configuration types of the router (\<open>EConfig\<close>, \<open>AutoCorsPreflightOptions\<close>) as the
  source declares them; the optional \<open>autoCorsPreflight\<close> is an option.
\<close>

record AutoCorsPreflightOptions =
  trustedOrigins :: "string list"

record EConfig =
  parseCookie :: bool
  auto405 :: bool
  extractRequestParameters :: bool
  autoContentType :: bool
  autoCorsPreflight :: "AutoCorsPreflightOptions option"

text \<open>
  The request wrapper: the fields the router reads (\<open>method\<close>, here
  \<open>req_method\<close>; \<open>urlObj.pathname\<close>; \<open>headers\<close>) and the one it writes
  (\<open>params\<close>).
\<close>

record EReq =
  req_method :: string
  pathname :: string
  req_headers :: Headers
  params :: "(string \<times> string) list"

text \<open>
  A response body (\<open>BodyInit\<close> or null): null, a string, or any other payload (a stream,
  a buffer), which JavaScript always counts as true. \<open>Boolean\<close> is the truth value the
  serializer takes of it.
\<close>

datatype BodyInit = BodyNull | BodyString string | BodyOther "nat list"

fun Boolean :: "BodyInit \<Rightarrow> bool" where
  "Boolean BodyNull = False"
| "Boolean (BodyString s) = (s \<noteq> [])"
| "Boolean (BodyOther bs) = True"

text \<open>
  The response builder: status (0 when unset), the generic header multi-map, the cookies
  (\<open>res.headers.cookies\<close>, a \<open>Map\<close> from cookie name to serialized cookie, kept as an
  association list in insertion order), the body and the ended flag.
\<close>

record ERes =
  status :: int
  res_headers :: Headers
  cookies :: "(string \<times> string) list"
  body :: BodyInit
  hasEnded :: bool

text \<open>The wire-level \<open>Response\<close> handed back to the runtime.\<close>

record Response =
  resp_status :: int
  resp_headers :: Headers
  resp_body :: BodyInit

text \<open>
  What a route predicate returns. The source encodes it as \<open>0 | 404 | string[]\<close>:
  0 is \<open>Matched\<close>, 404 is \<open>NotFound\<close>, and the array of the route's methods is
  \<open>MethodMismatch\<close>.
\<close>

datatype check_result = Matched | NotFound | MethodMismatch "string list"

text \<open>
  Errors that travel through the dispatch: the two conditions the router synthesizes and
  any other error, of which only the message is read. \<open>ErrorMethodNotAllowed\<close> is
  constructed from the array the request-handler runner accumulates, whose elements are
  the method arrays of the mismatching routes.
\<close>

datatype js_error =
    is_ErrorNotFound: ErrorNotFound
  | is_ErrorMethodNotAllowed: ErrorMethodNotAllowed "string list list"
  | Error string

text \<open>
  Modelled from the spec: the field \<open>allow\<close> of \<open>ErrorMethodNotAllowed\<close>, whose class
  is not among the sources: the comma-joined allowed methods. Joining an array of arrays
  with a comma joins each inner array with a comma first. The default error handler
  reads \<open>allow\<close> of an \<open>ErrorMethodNotAllowed\<close> only, and \<open>message\<close> of an
  error that is neither of the two synthesized conditions only.
\<close>

fun allow :: "js_error \<Rightarrow> string" where
  "allow (ErrorMethodNotAllowed allowedMethods) = join '','' (map (join '','') allowedMethods)"
| "allow e = []"

fun message :: "js_error \<Rightarrow> string" where
  "message (Error m) = m"
| "message e = []"

text \<open>
  A callback mutates the request and the response in place and then returns or throws:
  its model returns the thrown error, if any, with the request and the response as it
  left them. Request handlers take two parameters, error handlers three.
\<close>

type_synonym RequestHandlerCallback = "EReq \<Rightarrow> ERes \<Rightarrow> js_error option \<times> EReq \<times> ERes"

type_synonym ErrorMiddlewareCallback =
  "js_error \<Rightarrow> EReq \<Rightarrow> ERes \<Rightarrow> js_error option \<times> EReq \<times> ERes"

type_synonym Matcher = "EReq \<Rightarrow> check_result \<times> EReq"

text \<open>
  Modelled from the spec: the classes \<open>RequestHandler\<close> and \<open>ErrorMiddleware\<close>, which
  are not among the sources: a handler pairs a route predicate with a callback; \<open>check\<close>
  applies the predicate to the request and \<open>run\<close> invokes the callback.
\<close>

datatype RequestHandler = RequestHandler (rh_check: Matcher) (rh_run: RequestHandlerCallback)

datatype ErrorMiddleware = ErrorMiddleware (em_check: Matcher) (em_run: ErrorMiddlewareCallback)

section \<open>Route matching\<close>

text \<open>
  The path matcher is the external library: \<open>match(pattern, ...)\<close> applied to a
  pathname returns a result with the matched text \<open>path\<close> and the extracted \<open>params\<close>,
  or false. It is a parameter of the model. The cache of compiled matchers only saves
  compiling a pattern twice and is not modelled.
\<close>

type_synonym PathMatcher = "string \<Rightarrow> string \<Rightarrow> (string \<times> (string \<times> string) list) option"

definition methodAllowed :: "string list \<Rightarrow> EReq \<Rightarrow> bool" where
  "methodAllowed methods req = list_ex (\<lambda>m. m = ''*'' \<or> m = req_method req) methods"

definition routeMatcher :: "PathMatcher \<Rightarrow> EConfig \<Rightarrow> string list \<Rightarrow> string \<Rightarrow> Matcher" where
  "routeMatcher pm config methods pattern req =
     (if pattern = ''*'' \<or> pattern = ''(.*)'' then
        (if methodAllowed methods req then Matched else MethodMismatch methods, req)
      else
        (case pm pattern (pathname req) of
           None \<Rightarrow> (NotFound, req)
         | Some (path, ps) \<Rightarrow>
             if path \<noteq> [] then
               (if methodAllowed methods req then Matched else MethodMismatch methods,
                if extractRequestParameters config then req\<lparr>params := ps\<rparr> else req)
             else (NotFound, req)))"

section \<open>The response builder\<close>

text \<open>
  Modelled from the spec: the class \<open>EResponse\<close> of the router, which is not among the
  sources. A fresh builder has status 0 (unset), no header, no cookie, no body and is not
  ended. \<open>sendStatus\<close> responds with a status: it sets the status and ends the response.
  \<open>withStatus\<close> sets the status only. \<open>json\<close> responds with a JSON body: it sets the
  content type, stores the serialized value as the body and ends the response.
  \<open>JSON.stringify\<close> is the runtime's and is a parameter.
\<close>

datatype json = JString string | JObject "(string \<times> json) list"

definition new_EResponse :: "EConfig \<Rightarrow> ERes" where
  "new_EResponse config =
     \<lparr>status = 0, res_headers = [], cookies = [], body = BodyNull, hasEnded = False\<rparr>"

definition sendStatus :: "int \<Rightarrow> ERes \<Rightarrow> ERes" where
  "sendStatus s res = res\<lparr>status := s, hasEnded := True\<rparr>"

definition withStatus :: "int \<Rightarrow> ERes \<Rightarrow> ERes" where
  "withStatus s res = res\<lparr>status := s\<rparr>"

definition json :: "(json \<Rightarrow> string) \<Rightarrow> json \<Rightarrow> ERes \<Rightarrow> ERes" where
  "json stringify data res =
     res\<lparr>res_headers := headers_set ''Content-Type'' ''application/json'' (res_headers res),
         body := BodyString (stringify data),
         hasEnded := True\<rparr>"

text \<open>
  \<open>Map.prototype.set\<close> on an insertion-ordered map: a key already present keeps its
  place and takes the new value, a new key goes to the end.
\<close>

fun Map_set :: "'k \<Rightarrow> 'v \<Rightarrow> ('k \<times> 'v) list \<Rightarrow> ('k \<times> 'v) list" where
  "Map_set k v [] = [(k, v)]"
| "Map_set k v (e # m) = (if fst e = k then (k, v) # m else e # Map_set k v m)"

text \<open>
  The class \<open>FPResponse\<close> of \<open>src/lib/response.ts\<close>, with the two methods the claims
  name. \<open>cookie.serialize\<close> is the external cookie library and is a parameter.
\<close>

record FPResponse =
  fp_headers :: Headers
  fp_body :: BodyInit
  fp_status :: int
  fp_cookies :: "(string \<times> string) list"

definition cookie ::
  "(string \<Rightarrow> string \<Rightarrow> 'o \<Rightarrow> string) \<Rightarrow> string \<Rightarrow> string \<Rightarrow> 'o \<Rightarrow> FPResponse \<Rightarrow> FPResponse" where
  "cookie serialize key val opts r =
     r\<lparr>fp_cookies := Map_set key (serialize key val opts) (fp_cookies r)\<rparr>"

definition setDefaults :: "FPResponse \<Rightarrow> FPResponse" where
  "setDefaults r =
     (if fp_status r = 0 then
        (if fp_body r = BodyNull then r\<lparr>fp_status := 404, fp_body := BodyString ''Not Found''\<rparr>
         else r\<lparr>fp_status := 200\<rparr>)
      else r)"

text \<open>
  Modelled from the spec: the cookie setter of \<open>EResponse\<close>, which is not among the
  sources: cookies are tracked apart from the generic headers, in a map from cookie name
  to serialized cookie, as \<open>FPResponse.cookie\<close> does.
\<close>

definition res_cookie ::
  "(string \<Rightarrow> string \<Rightarrow> 'o \<Rightarrow> string) \<Rightarrow> string \<Rightarrow> string \<Rightarrow> 'o \<Rightarrow> ERes \<Rightarrow> ERes" where
  "res_cookie serialize key val opts res =
     res\<lparr>cookies := Map_set key (serialize key val opts) (cookies res)\<rparr>"

section \<open>The default error handler and the preflight handler\<close>

definition defaultErrorHandler :: "(json \<Rightarrow> string) \<Rightarrow> bool \<Rightarrow> ErrorMiddlewareCallback" where
  "defaultErrorHandler stringify auto405' err req res =
     (if is_ErrorNotFound err \<or> (is_ErrorMethodNotAllowed err \<and> \<not> auto405') then
        (None, req, sendStatus 404 res)
      else if is_ErrorMethodNotAllowed err then
        (None, req,
         sendStatus 405 (res\<lparr>res_headers := headers_set ''Allow'' (allow err) (res_headers res)\<rparr>))
      else
        (None, req, json stringify (JObject [(''error'', JString (message err))]) (withStatus 500 res)))"

text \<open>
  \<open>originHeaderValue\<close> is the local variable of \<open>preflightHandler\<close>: null (\<open>None\<close>),
  the wildcard, or the lower-cased \<open>Origin\<close> header of the request when a trusted origin
  equals it after lower-casing. \<open>has\<close> and \<open>get\<close> agree, so \<open>get\<close> is not null
  after \<open>has\<close> (lemma \<open>headers_get_None_iff\<close>).
\<close>

definition originHeaderValue :: "AutoCorsPreflightOptions \<Rightarrow> EReq \<Rightarrow> string option" where
  "originHeaderValue acp req =
     (if length (trustedOrigins acp) = 1 \<and> hd (trustedOrigins acp) = ''*'' then Some ''*''
      else if headers_has ''origin'' (req_headers req) then
        (case headers_get ''origin'' (req_headers req) of
           None \<Rightarrow> None
         | Some v \<Rightarrow>
             (let origin = toLowerCase v in
              if list_ex (\<lambda>trustedOrigin. toLowerCase trustedOrigin = origin) (trustedOrigins acp)
              then Some origin else None))
      else None)"

definition mirrorHeader :: "string \<Rightarrow> string \<Rightarrow> EReq \<Rightarrow> ERes \<Rightarrow> ERes" where
  "mirrorHeader requested allowed req res =
     (if headers_has requested (req_headers req) then
        (case headers_get requested (req_headers req) of
           None \<Rightarrow> res
         | Some v \<Rightarrow> res\<lparr>res_headers := headers_set allowed v (res_headers res)\<rparr>)
      else res)"

definition preflightHandler :: "AutoCorsPreflightOptions \<Rightarrow> RequestHandlerCallback" where
  "preflightHandler acp req res =
     (if length (trustedOrigins acp) = 0 then (None, req, sendStatus 403 res)
      else
        (case originHeaderValue acp req of
           None \<Rightarrow> (None, req, sendStatus 403 res)
         | Some v \<Rightarrow>
             if v = [] then (None, req, sendStatus 403 res)
             else
               (let res1 = mirrorHeader ''access-control-request-method''
                             ''access-control-allow-methods'' req res;
                    res2 = mirrorHeader ''access-control-request-headers''
                             ''access-control-allow-headers'' req res1;
                    res3 = res2\<lparr>res_headers :=
                             headers_set ''access-control-allow-origin'' v (res_headers res2)\<rparr>
                in (None, req, sendStatus 200 res3))))"

section \<open>The router\<close>

record Router =
  requestHandlers :: "RequestHandler list"
  errorHandlers :: "ErrorMiddleware list"
  config :: EConfig

text \<open>
  \<open>use\<close> tells a request handler from an error handler by the number of parameters of
  the callback (\<open>cb.length === 3\<close>): a callback is one or the other. Its first argument
  is a path or a callback, its second, optional, a callback; with a path and no callback
  the read of \<open>cb.length\<close> throws.
\<close>

datatype Callback = RequestCallback RequestHandlerCallback | ErrorCallback ErrorMiddlewareCallback

definition use ::
  "PathMatcher \<Rightarrow> string + Callback \<Rightarrow> Callback option \<Rightarrow> Router \<Rightarrow> js_error + Router" where
  "use pm path callback router =
     (let cb = (case path of Inr f \<Rightarrow> Some f | Inl p \<Rightarrow> callback);
          matcher = (case path of
                       Inr f \<Rightarrow> (\<lambda>req. (Matched, req))
                     | Inl p \<Rightarrow> routeMatcher pm (config router) [''*''] p)
      in case cb of
           None \<Rightarrow> Inl (Error ''TypeError'')
         | Some (ErrorCallback f) \<Rightarrow>
             Inr (router\<lparr>errorHandlers := errorHandlers router @ [ErrorMiddleware matcher f]\<rparr>)
         | Some (RequestCallback f) \<Rightarrow>
             Inr (router\<lparr>requestHandlers := requestHandlers router @ [RequestHandler matcher f]\<rparr>))"

definition route ::
  "PathMatcher \<Rightarrow> string list \<Rightarrow> string \<Rightarrow> RequestHandlerCallback \<Rightarrow> Router \<Rightarrow> Router" where
  "route pm methods pattern callback router =
     router\<lparr>requestHandlers := requestHandlers router @
       [RequestHandler (routeMatcher pm (config router) (map toUpperCase methods) pattern) callback]\<rparr>"

definition options :: "PathMatcher \<Rightarrow> string \<Rightarrow> RequestHandlerCallback \<Rightarrow> Router \<Rightarrow> Router" where
  "options pm pattern callback router = route pm [''OPTIONS''] pattern callback router"

definition defaultConfig :: EConfig where
  "defaultConfig =
     \<lparr>parseCookie = True, auto405 = True, extractRequestParameters = True,
      autoContentType = False, autoCorsPreflight = None\<rparr>"

definition new_Router :: "PathMatcher \<Rightarrow> EConfig option \<Rightarrow> Router" where
  "new_Router pm cfg =
     (let c = (case cfg of None \<Rightarrow> defaultConfig | Some c' \<Rightarrow> c');
          this = \<lparr>requestHandlers = [], errorHandlers = [], config = c\<rparr>
      in case autoCorsPreflight c of
           None \<Rightarrow> this
         | Some acp \<Rightarrow> options pm ''*'' (preflightHandler acp) this)"

section \<open>Running the handler chains\<close>

text \<open>
  The state of the loop of \<open>runRequestHandlers\<close>: the request and the response, which
  the callbacks mutate, and the two local variables \<open>checkResult\<close> (undefined before the
  first check) and \<open>allowedMethods\<close>. The field \<open>evaluated\<close> is a history variable: the
  check results in the order the loop computed them, one for each handler it reached.
  A callback ran exactly for the entries that are \<open>Matched\<close>.
\<close>

record run_state =
  rs_req :: EReq
  rs_res :: ERes
  checkResult :: "check_result option"
  allowedMethods :: "string list list"
  evaluated :: "check_result list"

text \<open>
  One pass of the loop body per handler. The loop breaks when the response has ended.
  A result of 0 runs the callback, which may throw: the error then leaves the loop.
  Any other result with a true \<open>length\<close> (a non-empty array of methods) is pushed on
  \<open>allowedMethods\<close>; 404 and the empty array are passed over.
\<close>

fun requestLoop :: "RequestHandler list \<Rightarrow> run_state \<Rightarrow> js_error option \<times> run_state" where
  "requestLoop [] s = (None, s)"
| "requestLoop (a # rest) s =
     (if hasEnded (rs_res s) then (None, s)
      else
        (case rh_check a (rs_req s) of (cr, rq) \<Rightarrow>
           (let s1 = s\<lparr>rs_req := rq, checkResult := Some cr, evaluated := evaluated s @ [cr]\<rparr>
            in case cr of
                 Matched \<Rightarrow>
                   (case rh_run a rq (rs_res s) of
                      (None, rq', res') \<Rightarrow> requestLoop rest (s1\<lparr>rs_req := rq', rs_res := res'\<rparr>)
                    | (Some e, rq', res') \<Rightarrow> (Some e, s1\<lparr>rs_req := rq', rs_res := res'\<rparr>))
               | NotFound \<Rightarrow> requestLoop rest s1
               | MethodMismatch ms \<Rightarrow>
                   (if ms \<noteq> [] then
                      requestLoop rest (s1\<lparr>allowedMethods := allowedMethods s1 @ [ms]\<rparr>)
                    else requestLoop rest s1))))"

definition init_run_state :: "EReq \<Rightarrow> ERes \<Rightarrow> run_state" where
  "init_run_state req res =
     \<lparr>rs_req = req, rs_res = res, checkResult = None, allowedMethods = [], evaluated = []\<rparr>"

definition runRequestHandlers :: "Router \<Rightarrow> EReq \<Rightarrow> ERes \<Rightarrow> js_error option \<times> run_state" where
  "runRequestHandlers router req res =
     (case requestLoop (requestHandlers router) (init_run_state req res) of
        (Some e, s) \<Rightarrow> (Some e, s)
      | (None, s) \<Rightarrow>
          if allowedMethods s \<noteq> [] then (Some (ErrorMethodNotAllowed (allowedMethods s)), s)
          else if checkResult s = Some NotFound then (Some ErrorNotFound, s)
          else (None, s))"

text \<open>
  The loop of \<open>runErrorHandlers\<close>, with the same history variable: it breaks when the
  response has ended and runs the callback of each handler whose check is 0.
\<close>

record err_state =
  es_req :: EReq
  es_res :: ERes
  es_evaluated :: "check_result list"

fun errorLoop :: "ErrorMiddleware list \<Rightarrow> js_error \<Rightarrow> err_state \<Rightarrow> js_error option \<times> err_state" where
  "errorLoop [] err s = (None, s)"
| "errorLoop (eH # rest) err s =
     (if hasEnded (es_res s) then (None, s)
      else
        (case em_check eH (es_req s) of (cr, rq) \<Rightarrow>
           (let s1 = s\<lparr>es_req := rq, es_evaluated := es_evaluated s @ [cr]\<rparr>
            in if cr = Matched then
                 (case em_run eH err rq (es_res s) of
                    (None, rq', res') \<Rightarrow> errorLoop rest err (s1\<lparr>es_req := rq', es_res := res'\<rparr>)
                  | (Some e, rq', res') \<Rightarrow> (Some e, s1\<lparr>es_req := rq', es_res := res'\<rparr>))
               else errorLoop rest err s1)))"

definition runErrorHandlers ::
  "Router \<Rightarrow> js_error \<Rightarrow> EReq \<Rightarrow> ERes \<Rightarrow> js_error option \<times> err_state" where
  "runErrorHandlers router err req res =
     errorLoop (errorHandlers router) err \<lparr>es_req = req, es_res = res, es_evaluated = []\<rparr>"

section \<open>Serialization and dispatch\<close>

text \<open>
  The constructor \<open>new Response(body, {headers, status})\<close> of the fetch runtime. It
  throws a \<open>RangeError\<close> when the status is outside 200 to 599, and a \<open>TypeError\<close>
  when the body is not null and the status is one that allows no body (101, 103, 204,
  205, 304). Otherwise the response has that status, a copy of the headers and the body.
  The thrown errors are given by their names.
\<close>

definition nullBodyStatus :: "int \<Rightarrow> bool" where
  "nullBodyStatus s = (s = 101 \<or> s = 103 \<or> s = 204 \<or> s = 205 \<or> s = 304)"

definition new_Response :: "BodyInit \<Rightarrow> Headers \<Rightarrow> int \<Rightarrow> js_error + Response" where
  "new_Response b hs s =
     (if s < 200 \<or> 599 < s then Inl (Error ''RangeError'')
      else if b \<noteq> BodyNull \<and> nullBodyStatus s then Inl (Error ''TypeError'')
      else Inr \<lparr>resp_status = s, resp_headers = hs, resp_body = b\<rparr>)"

text \<open>
  \<open>serializeResponse\<close> builds the wire-level response from the builder. The status it
  passes to the constructor is the status of the builder, or 200 / 204 by the truth value
  of the body when the status is 0. When the constructor throws, so does
  \<open>serializeResponse\<close>. When the cookie map is not empty, every \<open>Set-Cookie\<close> entry
  of the response is then deleted and one is appended for each cookie in the order of the
  map.
\<close>

definition serializeResponse :: "ERes \<Rightarrow> js_error + Response" where
  "serializeResponse res =
     (case new_Response (body res) (res_headers res)
             (if status res \<noteq> 0 then status res
              else if Boolean (body res) then 200 else 204) of
        Inl e \<Rightarrow> Inl e
      | Inr response \<Rightarrow>
          if length (cookies res) \<noteq> 0 then
            Inr (response\<lparr>resp_headers :=
              foldl (\<lambda>h c. headers_append ''Set-Cookie'' c h)
                (headers_delete ''Set-Cookie'' (resp_headers response))
                (map snd (cookies res))\<rparr>)
          else Inr response)"

text \<open>
  \<open>handler\<close> is one dispatch. The request wrapper is built from the event by a class
  that is not among the sources; the model takes the wrapper as the input. The result is
  the response, or the error that an error handler or \<open>serializeResponse\<close> threw
  (the call of \<open>serializeResponse\<close> is outside the try block), and the router, whose
  list of error handlers the catch branch extends.
\<close>

definition handler ::
  "PathMatcher \<Rightarrow> (json \<Rightarrow> string) \<Rightarrow> Router \<Rightarrow> EReq \<Rightarrow> (js_error + Response) \<times> Router" where
  "handler pm stringify router req =
     (let res = new_EResponse (config router)
      in case runRequestHandlers router req res of
           (None, s) \<Rightarrow> (serializeResponse (rs_res s), router)
         | (Some err, s) \<Rightarrow>
             (case use pm (Inr (ErrorCallback (defaultErrorHandler stringify (auto405 (config router)))))
                     None router of
                Inl e \<Rightarrow> (Inl e, router)
              | Inr router' \<Rightarrow>
                  (case runErrorHandlers router' err (rs_req s) (rs_res s) of
                     (None, es) \<Rightarrow> (serializeResponse (es_res es), router')
                   | (Some e, es) \<Rightarrow> (Inl e, router'))))"

text \<open>Successive dispatches on one router instance: each sees the router the last one left.\<close>

fun dispatches ::
  "PathMatcher \<Rightarrow> (json \<Rightarrow> string) \<Rightarrow> Router \<Rightarrow> EReq list \<Rightarrow> (js_error + Response) list \<times> Router" where
  "dispatches pm stringify router [] = ([], router)"
| "dispatches pm stringify router (req # reqs) =
     (case handler pm stringify router req of
        (out, router') \<Rightarrow>
          (case dispatches pm stringify router' reqs of
             (outs, router'') \<Rightarrow> (out # outs, router'')))"

section \<open>Notions used to state the properties\<close>

text \<open>
  The method arrays that a run of the loop pushes on \<open>allowedMethods\<close>, read off the
  history of check results: the non-empty arrays of the \<open>MethodMismatch\<close> results, in
  order.
\<close>

fun mismatches :: "check_result list \<Rightarrow> string list list" where
  "mismatches [] = []"
| "mismatches (MethodMismatch ms # cs) = (if ms \<noteq> [] then ms # mismatches cs else mismatches cs)"
| "mismatches (c # cs) = mismatches cs"

text \<open>The error handler that the catch branch of \<open>handler\<close> registers through \<open>use\<close>.\<close>

definition defaultErrorMiddleware :: "(json \<Rightarrow> string) \<Rightarrow> bool \<Rightarrow> ErrorMiddleware" where
  "defaultErrorMiddleware stringify auto405' =
     ErrorMiddleware (\<lambda>req. (Matched, req)) (defaultErrorHandler stringify auto405')"

text \<open>Whether the request-handler chain of a dispatch fails (throws).\<close>

definition chainFails :: "Router \<Rightarrow> EReq \<Rightarrow> bool" where
  "chainFails router req =
     (fst (runRequestHandlers router req (new_EResponse (config router))) \<noteq> None)"

text \<open>
  The status that \<open>serializeResponse\<close> passes to the constructor, and whether the
  constructor accepts it with the body of the builder.
\<close>

definition passedStatus :: "ERes \<Rightarrow> int" where
  "passedStatus res =
     (if status res \<noteq> 0 then status res else if Boolean (body res) then 200 else 204)"

definition accepted :: "ERes \<Rightarrow> bool" where
  "accepted res =
     (200 \<le> passedStatus res \<and> passedStatus res \<le> 599 \<and>
      (body res = BodyNull \<or> \<not> nullBodyStatus (passedStatus res)))"


section \<open>Example collaborators, handlers and requests\<close>

text \<open>
  Concrete inputs on which the theorems below are instantiated: a path matcher for
  patterns without parameters (the pattern matches the pathname equal to it), a JSON
  printer for objects of strings, a cookie serializer, four callbacks (the last one
  assigns the empty string to \<open>res.body\<close>), and requests.
\<close>

definition exactMatcher :: PathMatcher where
  "exactMatcher pattern path = (if pattern = path then Some (path, []) else None)"

fun stringifyExample :: "json \<Rightarrow> string" where
  "stringifyExample (JString s) = CHR 0x22 # s @ [CHR 0x22]"
| "stringifyExample (JObject kvs) =
     ''{'' @ join '','' (map (\<lambda>kv. CHR 0x22 # fst kv @ [CHR 0x22] @ '':'' @ stringifyExample (snd kv)) kvs)
     @ ''}''"


definition passOn :: RequestHandlerCallback where
  "passOn req res = (None, req, res)"

definition respondOk :: RequestHandlerCallback where
  "respondOk req res = (None, req, sendStatus 200 res)"

definition failing :: RequestHandlerCallback where
  "failing req res = (Some (Error ''boom''), req, res)"

definition emptyBody :: RequestHandlerCallback where
  "emptyBody req res = (None, req, res\<lparr>body := BodyString []\<rparr>)"

definition request :: "string \<Rightarrow> string \<Rightarrow> EReq" where
  "request m p = \<lparr>req_method = m, pathname = p, req_headers = [], params = []\<rparr>"

definition requestWithOrigin :: "string \<Rightarrow> EReq" where
  "requestWithOrigin v =
     \<lparr>req_method = ''OPTIONS'', pathname = ''/'', req_headers = [(''origin'', v)], params = []\<rparr>"

definition emptyRouter :: Router where
  "emptyRouter = \<lparr>requestHandlers = [], errorHandlers = [], config = defaultConfig\<rparr>"

text \<open>
  Three routers. The first is set up as an application would with
  \<open>use(passOn); get("/items", respondOk)\<close>: a middleware that passes every request on,
  then a route. The second with \<open>get("/items", respondOk); use(failing)\<close>: the route,
  then a middleware that throws. The third with \<open>use(emptyBody)\<close> alone.
\<close>

definition useCallback :: "Callback \<Rightarrow> Router \<Rightarrow> Router" where
  "useCallback cb router =
     (case use exactMatcher (Inr cb) None router of Inr router' \<Rightarrow> router' | Inl e \<Rightarrow> router)"

definition itemsRouter :: Router where
  "itemsRouter =
     route exactMatcher [''GET''] ''/items'' respondOk
       (useCallback (RequestCallback passOn) emptyRouter)"

definition emptyBodyRouter :: Router where
  "emptyBodyRouter = useCallback (RequestCallback emptyBody) emptyRouter"

definition throwingRouter :: Router where
  "throwingRouter =
     useCallback (RequestCallback failing)
       (route exactMatcher [''GET''] ''/items'' respondOk emptyRouter)"

section \<open>Facts about strings and headers\<close>

lemma toLowerCase_names:
  "toLowerCase ''Set-Cookie'' = ''set-cookie''"
  "toLowerCase ''Allow'' = ''allow''"
  "toLowerCase ''Content-Type'' = ''content-type''"
  "toLowerCase ''origin'' = ''origin''"
  "toLowerCase ''access-control-allow-origin'' = ''access-control-allow-origin''"
  "toLowerCase ''access-control-allow-methods'' = ''access-control-allow-methods''"
  "toLowerCase ''access-control-allow-headers'' = ''access-control-allow-headers''"
  "toLowerCase ''access-control-request-method'' = ''access-control-request-method''"
  "toLowerCase ''access-control-request-headers'' = ''access-control-request-headers''"
  by (simp_all add: toLowerCase_def toLowerCaseChar_def upperCaseLetters_def
      lowerCaseLetters_def)

lemma toLowerCase_eq_Nil_iff: "toLowerCase v = [] \<longleftrightarrow> v = []"
  by (simp add: toLowerCase_def)

lemma headers_get_None_iff: "headers_get name hs = None \<longleftrightarrow> \<not> headers_has name hs"
  by (induction hs)
    (auto simp: headers_get_def headers_getAll_def headers_has_def split: list.splits)

lemma filter_set_first_same: "map snd (filter (\<lambda>e. fst e = n) (set_first n v hs)) = [v]"
  by (induction hs) (auto simp: filter_empty_conv)

lemma filter_set_first_other:
  "m \<noteq> n \<Longrightarrow> filter (\<lambda>e. fst e = m) (set_first n v hs) = filter (\<lambda>e. fst e = m) hs"
  by (induction hs) (auto intro: filter_cong)

lemma headers_getAll_set_same: "headers_getAll name (headers_set name v hs) = [v]"
  by (simp add: headers_getAll_def headers_set_def filter_set_first_same)

lemma headers_getAll_set_other:
  "toLowerCase m \<noteq> toLowerCase n \<Longrightarrow>
     headers_getAll m (headers_set n v hs) = headers_getAll m hs"
  by (simp add: headers_getAll_def headers_set_def filter_set_first_other)

lemma methodAllowed_iff:
  "methodAllowed methods req \<longleftrightarrow> ''*'' \<in> set methods \<or> req_method req \<in> set methods"
  by (auto simp: methodAllowed_def list_ex_iff)

section \<open>Route matching: the path is looked at before the method\<close>

text \<open>
  Claim C5. The predicate built by \<open>routeMatcher\<close> looks at the path first. The path
  counts as matched when the pattern is the universal wildcard or the matcher returned a
  result whose \<open>path\<close> is true (the test of the source). When the path is not
  matched (the matcher returned false, or a result with an empty \<open>path\<close>), the result
  is \<open>NotFound\<close> whatever the request method is. When it is matched, the result is
  \<open>Matched\<close> if a method of the route is the wildcard or the method of the request,
  and \<open>MethodMismatch\<close> with the methods of the route if none is. So
  \<open>MethodMismatch\<close> is returned only, and always, for a matched path with a method that
  is not allowed.
\<close>

theorem routeMatcher_path_before_method:
  "fst (routeMatcher pm cfg methods pattern req) =
      (if pattern = ''*'' \<or> pattern = ''(.*)'' \<or>
          (\<exists>path ps. pm pattern (pathname req) = Some (path, ps) \<and> path \<noteq> [])
       then (if ''*'' \<in> set methods \<or> req_method req \<in> set methods
             then Matched else MethodMismatch methods)
       else NotFound)
   \<and> (methodAllowed methods req \<longleftrightarrow> ''*'' \<in> set methods \<or> req_method req \<in> set methods)
   \<and> (pattern \<noteq> ''*'' \<and> pattern \<noteq> ''(.*)'' \<and>
       (pm pattern (pathname req) = None \<or> (\<exists>ps. pm pattern (pathname req) = Some ([], ps)))
      \<longrightarrow> fst (routeMatcher pm cfg methods pattern req) = NotFound)
   \<and> (\<forall>ms. fst (routeMatcher pm cfg methods pattern req) = MethodMismatch ms
      \<longleftrightarrow> ms = methods \<and> \<not> methodAllowed methods req \<and>
          (pattern = ''*'' \<or> pattern = ''(.*)'' \<or>
           (\<exists>path ps. pm pattern (pathname req) = Some (path, ps) \<and> path \<noteq> [])))
   \<and> (fst (routeMatcher pm cfg methods pattern req) = Matched
      \<longleftrightarrow> methodAllowed methods req \<and>
          (pattern = ''*'' \<or> pattern = ''(.*)'' \<or>
           (\<exists>path ps. pm pattern (pathname req) = Some (path, ps) \<and> path \<noteq> [])))"
  by (auto simp: routeMatcher_def methodAllowed_iff split: option.splits if_splits)

theorem routeMatcher_path_before_method_witness:
  "fst (routeMatcher exactMatcher defaultConfig [''GET''] ''/items'' (request ''POST'' ''/missing''))
     = NotFound
   \<and> fst (routeMatcher exactMatcher defaultConfig [''GET''] ''/items'' (request ''POST'' ''/items''))
     = MethodMismatch [''GET'']
   \<and> fst (routeMatcher exactMatcher defaultConfig [''GET''] ''/items'' (request ''GET'' ''/items''))
     = Matched
   \<and> fst (routeMatcher exactMatcher defaultConfig [''GET''] ''*'' (request ''POST'' ''/missing''))
     = MethodMismatch [''GET'']"
  using
    routeMatcher_path_before_method [where pm = exactMatcher and cfg = defaultConfig
      and methods = "[''GET'']" and pattern = "''/items''" and req = "request ''POST'' ''/missing''"]
    routeMatcher_path_before_method [where pm = exactMatcher and cfg = defaultConfig
      and methods = "[''GET'']" and pattern = "''/items''" and req = "request ''POST'' ''/items''"]
    routeMatcher_path_before_method [where pm = exactMatcher and cfg = defaultConfig
      and methods = "[''GET'']" and pattern = "''/items''" and req = "request ''GET'' ''/items''"]
    routeMatcher_path_before_method [where pm = exactMatcher and cfg = defaultConfig
      and methods = "[''GET'']" and pattern = "''*''" and req = "request ''POST'' ''/missing''"]
  by (simp add: exactMatcher_def request_def methodAllowed_def routeMatcher_def)

section \<open>The default error handler\<close>

lemma join_append:
  "xs \<noteq> [] \<Longrightarrow> ys \<noteq> [] \<Longrightarrow> join sep (xs @ ys) = join sep xs @ sep @ join sep ys"
  by (induction sep xs rule: join.induct) (auto simp: neq_Nil_conv)

lemma allow_flat:
  "[] \<notin> set ams \<Longrightarrow> allow (ErrorMethodNotAllowed ams) = join '','' (concat ams)"
proof (induction ams)
  case Nil
  show ?case by simp
next
  case (Cons ms rest)
  show ?case
  proof (cases rest)
    case Nil
    then show ?thesis by simp
  next
    case (Cons ms' rest')
    with Cons.prems have "ms \<noteq> []" "concat rest \<noteq> []" by auto
    with Cons.IH Cons.prems Cons show ?thesis by (simp add: join_append)
  qed
qed

text \<open>
  Claim C4. The default error handler never throws, leaves the request alone and ends
  the response, for every error. For \<open>ErrorNotFound\<close>, and for
  \<open>ErrorMethodNotAllowed\<close> when \<open>auto405\<close> is off, the status is 404. For
  \<open>ErrorMethodNotAllowed\<close> when \<open>auto405\<close> is on, the \<open>Allow\<close> header is the
  comma-joined allowed methods and the status is 405. For any other error the status is
  500 and the body is the JSON text of the object whose field \<open>error\<close> is the message
  of the error.
\<close>

theorem defaultErrorHandler_mapping:
  "(case defaultErrorHandler stringify a err req res of
      (thrown, req', res') \<Rightarrow>
        thrown = None \<and> req' = req \<and> hasEnded res' \<and>
        (case err of
           ErrorNotFound \<Rightarrow> status res' = 404
         | ErrorMethodNotAllowed ms \<Rightarrow>
             if a then
               status res' = 405 \<and>
               headers_getAll ''Allow'' (res_headers res') = [join '','' (map (join '','') ms)]
             else status res' = 404
         | Error m \<Rightarrow>
             status res' = 500 \<and>
             body res' = BodyString (stringify (JObject [(''error'', JString m)])) \<and>
             headers_getAll ''Content-Type'' (res_headers res') = [''application/json'']))"
  by (cases err)
    (simp_all add: defaultErrorHandler_def sendStatus_def withStatus_def json_def
      headers_getAll_set_same)

theorem defaultErrorHandler_mapping_witness:
  "status (snd (snd (defaultErrorHandler stringifyExample True ErrorNotFound
      (request ''GET'' ''/missing'') (new_EResponse defaultConfig)))) = 404
   \<and> status (snd (snd (defaultErrorHandler stringifyExample False
      (ErrorMethodNotAllowed [[''GET''], [''PUT'', ''PATCH'']])
      (request ''POST'' ''/items'') (new_EResponse defaultConfig)))) = 404
   \<and> status (snd (snd (defaultErrorHandler stringifyExample True
      (ErrorMethodNotAllowed [[''GET''], [''PUT'', ''PATCH'']])
      (request ''POST'' ''/items'') (new_EResponse defaultConfig)))) = 405
   \<and> headers_get ''Allow'' (res_headers (snd (snd (defaultErrorHandler stringifyExample True
      (ErrorMethodNotAllowed [[''GET''], [''PUT'', ''PATCH'']])
      (request ''POST'' ''/items'') (new_EResponse defaultConfig))))) = Some ''GET,PUT,PATCH''
   \<and> status (snd (snd (defaultErrorHandler stringifyExample True (Error ''boom'')
      (request ''GET'' ''/items'') (new_EResponse defaultConfig)))) = 500
   \<and> body (snd (snd (defaultErrorHandler stringifyExample True (Error ''boom'')
      (request ''GET'' ''/items'') (new_EResponse defaultConfig)))) =
       BodyString (CHR ''{'' # CHR 0x22 # ''error'' @ [CHR 0x22] @ '':'' @ [CHR 0x22] @ ''boom''
         @ [CHR 0x22] @ ''}'')"
  using
    defaultErrorHandler_mapping [where stringify = stringifyExample and a = True
      and err = ErrorNotFound and req = "request ''GET'' ''/missing''"
      and res = "new_EResponse defaultConfig"]
    defaultErrorHandler_mapping [where stringify = stringifyExample and a = True
      and err = "Error ''boom''" and req = "request ''GET'' ''/items''"
      and res = "new_EResponse defaultConfig"]
  by (simp add: defaultErrorHandler_def sendStatus_def withStatus_def json_def
      new_EResponse_def headers_get_def headers_getAll_def headers_set_def toLowerCase_names)

section \<open>Serialization\<close>

lemma Boolean_iff: "Boolean b \<longleftrightarrow> b \<noteq> BodyNull \<and> b \<noteq> BodyString []"
  by (cases b) simp_all

lemma foldl_headers_append:
  "foldl (\<lambda>h c. headers_append n c h) hs cs = hs @ map (\<lambda>c. (toLowerCase n, c)) cs"
  by (induction cs arbitrary: hs) (simp_all add: headers_append_def)

text \<open>
  The result of \<open>serializeResponse\<close> in full: the response when the constructor accepts
  the status, the error of the constructor otherwise.
\<close>

lemma serializeResponse_result:
  "serializeResponse res =
     (if accepted res then
        Inr \<lparr>resp_status = passedStatus res,
             resp_headers =
               (if cookies res \<noteq> [] then
                  headers_delete ''Set-Cookie'' (res_headers res)
                    @ map (\<lambda>c. (toLowerCase ''Set-Cookie'', c)) (map snd (cookies res))
                else res_headers res),
             resp_body = body res\<rparr>
      else if passedStatus res < 200 \<or> 599 < passedStatus res then Inl (Error ''RangeError'')
      else Inl (Error ''TypeError''))"
  by (auto simp: serializeResponse_def new_Response_def accepted_def passedStatus_def
      foldl_headers_append)

lemma serializeResponse_Inr:
  assumes "serializeResponse res = Inr resp"
  shows "accepted res"
    and "resp_status resp = passedStatus res"
    and "resp_body resp = body res"
    and "resp_headers resp =
      (if cookies res \<noteq> [] then
         headers_delete ''Set-Cookie'' (res_headers res)
           @ map (\<lambda>c. (toLowerCase ''Set-Cookie'', c)) (map snd (cookies res))
       else res_headers res)"
  using assms unfolding serializeResponse_result by (auto split: if_splits)

lemma serializeResponse_accepted: "accepted res \<Longrightarrow> \<exists>resp. serializeResponse res = Inr resp"
  by (simp add: serializeResponse_result)

lemma headers_getAll_serializeResponse_other:
  "serializeResponse res = Inr resp \<Longrightarrow> toLowerCase name \<noteq> ''set-cookie'' \<Longrightarrow>
     headers_getAll name (resp_headers resp) = headers_getAll name (res_headers res)"
  by (auto simp: serializeResponse_Inr(4) headers_getAll_def headers_delete_def
      toLowerCase_names filter_empty_conv intro!: arg_cong[where f = "map snd"] filter_cong)

text \<open>
  Where the constructor accepts, the status is as the comment in the source says: the
  status of the builder when one was set, 200 for a body that is true, 204 for no body.
\<close>

lemma serializeResponse_status:
  "status res \<noteq> 0 \<Longrightarrow> serializeResponse res = Inr resp \<Longrightarrow> resp_status resp = status res"
  "status res = 0 \<Longrightarrow> Boolean (body res) \<Longrightarrow>
     \<exists>resp. serializeResponse res = Inr resp \<and> resp_status resp = 200"
  "status res = 0 \<Longrightarrow> body res = BodyNull \<Longrightarrow>
     \<exists>resp. serializeResponse res = Inr resp \<and> resp_status resp = 204"
  by (auto simp: serializeResponse_result accepted_def passedStatus_def nullBodyStatus_def
      split: if_splits)

text \<open>
  \<open>FPResponse.setDefaults\<close> is a defaulting of its own, which \<open>serializeResponse\<close>
  does not call: for an unset status it gives 404 (with a body) when the body is null and
  200 otherwise. \<open>FPResponse.cookie\<close> updates its cookie map as the cookie setter of the
  builder does.
\<close>

lemma fp_status_setDefaults:
  "fp_status (setDefaults r) =
     (if fp_status r \<noteq> 0 then fp_status r else if fp_body r = BodyNull then 404 else 200)"
  by (simp add: setDefaults_def)

lemma fp_cookies_cookie:
  "fp_cookies r = cookies res \<Longrightarrow>
     fp_cookies (cookie serialize key val opts r) = cookies (res_cookie serialize key val opts res)"
  by (simp add: cookie_def res_cookie_def)

text \<open>
  Claim C8: with the status never set, the status of the serialized response is 200 if a
  body is present and 204 if none is. The source departs from it for a body that is
  present and empty. A handler that leaves the empty string as the body, and no status,
  makes \<open>serializeResponse\<close> take the body for absent and pass 204 with a body that is
  not null to the constructor, which throws a \<open>TypeError\<close>. The call is outside the
  try block of \<open>handler\<close>, so the dispatch fails with that error and gives no response,
  where the claim has a response of status 200.
\<close>

theorem serializeResponse_empty_body:
  "status ((new_EResponse defaultConfig)\<lparr>body := BodyString []\<rparr>) = 0
   \<and> body ((new_EResponse defaultConfig)\<lparr>body := BodyString []\<rparr>) \<noteq> BodyNull
   \<and> passedStatus ((new_EResponse defaultConfig)\<lparr>body := BodyString []\<rparr>) = 204
   \<and> serializeResponse ((new_EResponse defaultConfig)\<lparr>body := BodyString []\<rparr>)
       = Inl (Error ''TypeError'')
   \<and> fst (handler exactMatcher stringifyExample emptyBodyRouter (request ''GET'' ''/''))
       = Inl (Error ''TypeError'')"
proof -
  let ?res = "(new_EResponse defaultConfig)\<lparr>body := BodyString []\<rparr>"
  have thrown: "serializeResponse ?res = Inl (Error ''TypeError'')"
    by (simp add: serializeResponse_def new_Response_def nullBodyStatus_def new_EResponse_def)
  have "runRequestHandlers emptyBodyRouter (request ''GET'' ''/'')
        (new_EResponse (config emptyBodyRouter)) =
      (None, \<lparr>rs_req = request ''GET'' ''/'', rs_res = ?res, checkResult = Some Matched,
         allowedMethods = [], evaluated = [Matched]\<rparr>)"
    by (simp add: runRequestHandlers_def emptyBodyRouter_def useCallback_def use_def
        emptyRouter_def init_run_state_def emptyBody_def new_EResponse_def)
  then have "fst (handler exactMatcher stringifyExample emptyBodyRouter (request ''GET'' ''/''))
      = serializeResponse ?res"
    by (simp add: handler_def)
  with thrown show ?thesis
    by (simp add: passedStatus_def new_EResponse_def)
qed

section \<open>Cookies\<close>








section \<open>The preflight handler\<close>

lemma toLowerCase_examples:
  "toLowerCase ''https://a.com'' = ''https://a.com''"
  "toLowerCase ''https://A.com'' = ''https://a.com''"
  "toLowerCase ''https://b.com'' = ''https://b.com''"
  "toLowerCase ''*'' = ''*''"
  "toLowerCase ''Access-Control-Allow-Origin'' = ''access-control-allow-origin''"
  by (simp_all add: toLowerCase_def toLowerCaseChar_def upperCaseLetters_def
      lowerCaseLetters_def)

lemma originHeaderValue_listed:
  "trustedOrigins acp \<noteq> [''*''] \<Longrightarrow>
     originHeaderValue acp req =
       (case headers_get ''origin'' (req_headers req) of
          None \<Rightarrow> None
        | Some v \<Rightarrow>
            if list_ex (\<lambda>t. toLowerCase t = toLowerCase v) (trustedOrigins acp)
            then Some (toLowerCase v) else None)"
proof -
  assume "trustedOrigins acp \<noteq> [''*'']"
  then have "\<not> (length (trustedOrigins acp) = 1 \<and> hd (trustedOrigins acp) = ''*'')"
    by (cases "trustedOrigins acp") auto
  then show ?thesis
    using headers_get_None_iff[of "''origin''" "req_headers req"]
    by (auto simp: originHeaderValue_def Let_def split: option.splits)
qed

lemma mirrorHeader_frame:
  "status (mirrorHeader requested allowed req res) = status res"
  "hasEnded (mirrorHeader requested allowed req res) = hasEnded res"
  "body (mirrorHeader requested allowed req res) = body res"
  "cookies (mirrorHeader requested allowed req res) = cookies res"
  by (simp_all add: mirrorHeader_def split: option.splits)

text \<open>
  Claim C6, as amended. Let the trusted-origin list be other than the single wildcard
  entry. The preflight handler never throws, leaves the request alone and ends the
  response. If the request has an \<open>Origin\<close> header whose value is not empty and equals
  an entry of the trusted list after lower-casing both, the status is 200 and the
  \<open>Access-Control-Allow-Origin\<close> header is the lower-cased value of the \<open>Origin\<close>
  header of the request. Otherwise (no \<open>Origin\<close> header, an empty one, no entry that
  matches, an empty list) the status is 403.
\<close>

theorem preflightHandler_origin:
  "trustedOrigins acp \<noteq> [''*''] \<Longrightarrow>
   (case preflightHandler acp req res of
      (thrown, req', res') \<Rightarrow>
        thrown = None \<and> req' = req \<and> hasEnded res' \<and>
        (case headers_get ''origin'' (req_headers req) of
           None \<Rightarrow> status res' = 403
         | Some v \<Rightarrow>
             if v \<noteq> [] \<and> list_ex (\<lambda>t. toLowerCase t = toLowerCase v) (trustedOrigins acp)
             then status res' = 200 \<and>
                  headers_getAll ''access-control-allow-origin'' (res_headers res') = [toLowerCase v]
             else status res' = 403))"
  by (auto simp: preflightHandler_def originHeaderValue_listed sendStatus_def Let_def
      mirrorHeader_frame headers_getAll_set_same toLowerCase_eq_Nil_iff list_ex_iff
      split: option.splits)

theorem preflightHandler_origin_witness:
  "status (snd (snd (preflightHandler \<lparr>trustedOrigins = [''https://a.com'']\<rparr>
      (requestWithOrigin ''https://A.com'') (new_EResponse defaultConfig)))) = 200
   \<and> headers_get ''Access-Control-Allow-Origin'' (res_headers (snd (snd (preflightHandler
      \<lparr>trustedOrigins = [''https://a.com'']\<rparr>
      (requestWithOrigin ''https://A.com'') (new_EResponse defaultConfig))))) = Some ''https://a.com''
   \<and> status (snd (snd (preflightHandler \<lparr>trustedOrigins = [''https://a.com'']\<rparr>
      (requestWithOrigin ''https://b.com'') (new_EResponse defaultConfig)))) = 403
   \<and> status (snd (snd (preflightHandler \<lparr>trustedOrigins = [''https://a.com'']\<rparr>
      (request ''OPTIONS'' ''/'') (new_EResponse defaultConfig)))) = 403
   \<and> status (snd (snd (preflightHandler \<lparr>trustedOrigins = []\<rparr>
      (requestWithOrigin ''https://a.com'') (new_EResponse defaultConfig)))) = 403"
  using
    preflightHandler_origin [where acp = "\<lparr>trustedOrigins = [''https://a.com'']\<rparr>"
      and req = "requestWithOrigin ''https://A.com''" and res = "new_EResponse defaultConfig"]
    preflightHandler_origin [where acp = "\<lparr>trustedOrigins = [''https://a.com'']\<rparr>"
      and req = "requestWithOrigin ''https://b.com''" and res = "new_EResponse defaultConfig"]
  by (simp add: preflightHandler_def originHeaderValue_def mirrorHeader_def sendStatus_def
      requestWithOrigin_def request_def new_EResponse_def headers_has_def headers_get_def
      headers_getAll_def headers_set_def toLowerCase_names toLowerCase_examples)

text \<open>
  The claim as it is written fails in its clause that the header is never the wildcard:
  with the wildcard listed beside another origin, a request whose \<open>Origin\<close> header is
  the wildcard itself is answered 200 with the wildcard as the allowed origin.
\<close>

theorem preflightHandler_origin_counterexample:
  "trustedOrigins \<lparr>trustedOrigins = [''*'', ''https://a.com'']\<rparr> \<noteq> [''*'']
   \<and> status (snd (snd (preflightHandler \<lparr>trustedOrigins = [''*'', ''https://a.com'']\<rparr>
      (requestWithOrigin ''*'') (new_EResponse defaultConfig)))) = 200
   \<and> headers_get ''Access-Control-Allow-Origin'' (res_headers (snd (snd (preflightHandler
      \<lparr>trustedOrigins = [''*'', ''https://a.com'']\<rparr>
      (requestWithOrigin ''*'') (new_EResponse defaultConfig))))) = Some ''*''"
  by (simp add: preflightHandler_def originHeaderValue_def mirrorHeader_def sendStatus_def
      requestWithOrigin_def new_EResponse_def headers_has_def headers_get_def
      headers_getAll_def headers_set_def toLowerCase_names toLowerCase_examples)

section \<open>Facts about the two loops\<close>

lemma mismatches_append: "mismatches (xs @ ys) = mismatches xs @ mismatches ys"
  by (induction xs rule: mismatches.induct) auto

lemma set_mismatches: "set (mismatches cs) = {ms. MethodMismatch ms \<in> set cs \<and> ms \<noteq> []}"
  by (induction cs rule: mismatches.induct) auto

lemma requestLoop_ended: "hasEnded (rs_res s) \<Longrightarrow> requestLoop hs s = (None, s)"
  by (cases hs) simp_all

lemma requestLoop_append:
  "requestLoop (hs1 @ hs2) s =
     (case requestLoop hs1 s of (Some e, s') \<Rightarrow> (Some e, s') | (None, s') \<Rightarrow> requestLoop hs2 s')"
proof (induction hs1 arbitrary: s)
  case Nil
  show ?case by simp
next
  case (Cons a hs1)
  show ?case
  proof (cases "hasEnded (rs_res s)")
    case True
    then show ?thesis by (simp add: requestLoop_ended)
  next
    case False
    then show ?thesis
      by (auto simp: Cons.IH Let_def split: prod.splits check_result.splits option.splits)
  qed
qed

lemma errorLoop_ended: "hasEnded (es_res s) \<Longrightarrow> errorLoop hs err s = (None, s)"
  by (cases hs) simp_all

lemma errorLoop_append:
  "errorLoop (hs1 @ hs2) err s =
     (case errorLoop hs1 err s of (Some e, s') \<Rightarrow> (Some e, s') | (None, s') \<Rightarrow> errorLoop hs2 err s')"
proof (induction hs1 arbitrary: s)
  case Nil
  show ?case by simp
next
  case (Cons a hs1)
  show ?case
  proof (cases "hasEnded (es_res s)")
    case True
    then show ?thesis by (simp add: errorLoop_ended)
  next
    case False
    then show ?thesis
      by (auto simp: Cons.IH Let_def split: prod.splits option.splits)
  qed
qed

text \<open>
  What one run of the loop does to the local variables, in terms of the check results
  \<open>es\<close> it computed: they are appended to the history, their non-empty method arrays
  to \<open>allowedMethods\<close>, and \<open>checkResult\<close> is the last of them. When a callback threw,
  the last check result is \<open>Matched\<close>.
\<close>

lemma requestLoop_history:
  "requestLoop hs s = (r, s') \<Longrightarrow>
     \<exists>es. evaluated s' = evaluated s @ es \<and> length es \<le> length hs \<and>
          allowedMethods s' = allowedMethods s @ mismatches es \<and>
          checkResult s' = (if es = [] then checkResult s else Some (last es)) \<and>
          (r \<noteq> None \<longrightarrow> es \<noteq> [] \<and> last es = Matched)"
proof (induction hs arbitrary: s)
  case Nil
  then show ?case by auto
next
  case (Cons a hs)
  show ?case
  proof (cases "hasEnded (rs_res s)")
    case True
    with Cons.prems show ?thesis by auto
  next
    case False
    obtain cr rq where chk: "rh_check a (rs_req s) = (cr, rq)"
      by (cases "rh_check a (rs_req s)")
    let ?s1 = "s\<lparr>rs_req := rq, checkResult := Some cr, evaluated := evaluated s @ [cr]\<rparr>"
    have step: ?thesis
      if run: "requestLoop hs t = (r, s')"
        and t: "evaluated t = evaluated s @ [cr]" "checkResult t = Some cr"
          "allowedMethods t = allowedMethods s @ mismatches [cr]"
      for t
    proof -
      from Cons.IH[OF run] obtain es where es:
        "evaluated s' = evaluated t @ es" "length es \<le> length hs"
        "allowedMethods s' = allowedMethods t @ mismatches es"
        "checkResult s' = (if es = [] then checkResult t else Some (last es))"
        "r \<noteq> None \<longrightarrow> es \<noteq> [] \<and> last es = Matched" by blast
      have "mismatches (cr # es) = mismatches [cr] @ mismatches es"
        using mismatches_append[of "[cr]" es] by simp
      with es t show ?thesis
        by (intro exI[of _ "cr # es"]) auto
    qed
    show ?thesis
    proof (cases cr)
      case Matched
      obtain thrown rq' res' where run: "rh_run a rq (rs_res s) = (thrown, rq', res')"
        by (cases "rh_run a rq (rs_res s)")
      show ?thesis
      proof (cases thrown)
        case None
        with Cons.prems False chk Matched run
        have "requestLoop hs (?s1\<lparr>rs_req := rq', rs_res := res'\<rparr>) = (r, s')" by simp
        then show ?thesis by (rule step) (simp_all add: Matched)
      next
        case (Some e)
        with Cons.prems False chk Matched run
        have "r = Some e" "s' = ?s1\<lparr>rs_req := rq', rs_res := res'\<rparr>" by auto
        then show ?thesis using Matched by (intro exI[of _ "[cr]"]) auto
      qed
    next
      case NotFound
      with Cons.prems False chk have "requestLoop hs ?s1 = (r, s')" by simp
      then show ?thesis by (rule step) (simp_all add: NotFound)
    next
      case (MethodMismatch ms)
      let ?s2 = "if ms \<noteq> [] then ?s1\<lparr>allowedMethods := allowedMethods s @ [ms]\<rparr> else ?s1"
      from Cons.prems False chk MethodMismatch have "requestLoop hs ?s2 = (r, s')"
        by (simp add: Let_def split: if_splits)
      then show ?thesis by (rule step) (simp_all add: MethodMismatch)
    qed
  qed
qed

lemma requestLoop_init:
  assumes "requestLoop hs (init_run_state req res) = (r, s)"
  shows "allowedMethods s = mismatches (evaluated s)"
    and "checkResult s = (if evaluated s = [] then None else Some (last (evaluated s)))"
    and "length (evaluated s) \<le> length hs"
    and "r \<noteq> None \<Longrightarrow> evaluated s \<noteq> [] \<and> last (evaluated s) = Matched"
  using requestLoop_history[OF assms] by (auto simp: init_run_state_def)

text \<open>The outcome of \<open>runRequestHandlers\<close>, read off the history of the loop.\<close>

lemma runRequestHandlers_thrown:
  "requestLoop (requestHandlers router) (init_run_state req res) = (Some e, s) \<Longrightarrow>
     runRequestHandlers router req res = (Some e, s)"
  by (simp add: runRequestHandlers_def)

lemma runRequestHandlers_completed:
  assumes "requestLoop (requestHandlers router) (init_run_state req res) = (None, s)"
  shows "runRequestHandlers router req res =
     (if mismatches (evaluated s) \<noteq> [] then Some (ErrorMethodNotAllowed (mismatches (evaluated s)))
      else if evaluated s \<noteq> [] \<and> last (evaluated s) = NotFound then Some ErrorNotFound
      else None, s)"
  using assms requestLoop_init(1,2)[OF assms] by (simp add: runRequestHandlers_def)

section \<open>The example routers, evaluated\<close>

lemma toUpperCase_GET: "toUpperCase ''GET'' = ''GET''"
  by (simp add: toUpperCase_def toUpperCaseChar_def upperCaseLetters_def lowerCaseLetters_def)

lemma itemsRouter_handlers:
  "requestHandlers itemsRouter =
     [RequestHandler (\<lambda>req. (Matched, req)) passOn,
      RequestHandler (routeMatcher exactMatcher defaultConfig [''GET''] ''/items'') respondOk]"
  "errorHandlers itemsRouter = []"
  "config itemsRouter = defaultConfig"
  by (simp_all add: itemsRouter_def useCallback_def use_def route_def emptyRouter_def
      toUpperCase_GET)

lemma throwingRouter_handlers:
  "requestHandlers throwingRouter =
     [RequestHandler (routeMatcher exactMatcher defaultConfig [''GET''] ''/items'') respondOk,
      RequestHandler (\<lambda>req. (Matched, req)) failing]"
  "errorHandlers throwingRouter = []"
  "config throwingRouter = defaultConfig"
  by (simp_all add: throwingRouter_def useCallback_def use_def route_def emptyRouter_def
      toUpperCase_GET)

lemma items_checks:
  "routeMatcher exactMatcher defaultConfig [''GET''] ''/items'' (request ''POST'' ''/items'')
     = (MethodMismatch [''GET''], request ''POST'' ''/items'')"
  "routeMatcher exactMatcher defaultConfig [''GET''] ''/items'' (request ''GET'' ''/items'')
     = (Matched, request ''GET'' ''/items'')"
  "routeMatcher exactMatcher defaultConfig [''GET''] ''/items'' (request ''GET'' ''/missing'')
     = (NotFound, request ''GET'' ''/missing'')"
  by (simp_all add: routeMatcher_def exactMatcher_def methodAllowed_def request_def
      defaultConfig_def)

lemma hasEnded_new_EResponse: "\<not> hasEnded (new_EResponse cfg)"
  by (simp add: new_EResponse_def)

lemma itemsRouter_POST_items:
  "requestLoop (requestHandlers itemsRouter)
      (init_run_state (request ''POST'' ''/items'') (new_EResponse defaultConfig)) =
     (None, \<lparr>rs_req = request ''POST'' ''/items'', rs_res = new_EResponse defaultConfig,
        checkResult = Some (MethodMismatch [''GET'']), allowedMethods = [[''GET'']],
        evaluated = [Matched, MethodMismatch [''GET'']]\<rparr>)"
  by (simp add: itemsRouter_handlers init_run_state_def items_checks passOn_def
      hasEnded_new_EResponse)

lemma itemsRouter_GET_missing:
  "requestLoop (requestHandlers itemsRouter)
      (init_run_state (request ''GET'' ''/missing'') (new_EResponse defaultConfig)) =
     (None, \<lparr>rs_req = request ''GET'' ''/missing'', rs_res = new_EResponse defaultConfig,
        checkResult = Some NotFound, allowedMethods = [],
        evaluated = [Matched, NotFound]\<rparr>)"
  by (simp add: itemsRouter_handlers init_run_state_def items_checks passOn_def
      hasEnded_new_EResponse)

lemma itemsRouter_GET_items:
  "requestLoop (requestHandlers itemsRouter)
      (init_run_state (request ''GET'' ''/items'') (new_EResponse defaultConfig)) =
     (None, \<lparr>rs_req = request ''GET'' ''/items'',
        rs_res = sendStatus 200 (new_EResponse defaultConfig),
        checkResult = Some Matched, allowedMethods = [],
        evaluated = [Matched, Matched]\<rparr>)"
  by (simp add: itemsRouter_handlers init_run_state_def items_checks passOn_def respondOk_def
      hasEnded_new_EResponse)

lemma throwingRouter_POST_items:
  "requestLoop (requestHandlers throwingRouter)
      (init_run_state (request ''POST'' ''/items'') (new_EResponse defaultConfig)) =
     (Some (Error ''boom''),
      \<lparr>rs_req = request ''POST'' ''/items'', rs_res = new_EResponse defaultConfig,
        checkResult = Some Matched, allowedMethods = [[''GET'']],
        evaluated = [MethodMismatch [''GET''], Matched]\<rparr>)"
  by (simp add: throwingRouter_handlers init_run_state_def items_checks failing_def
      hasEnded_new_EResponse)

section \<open>Short-circuit on an ended response\<close>

text \<open>
  Claim C9. Let the loop of \<open>runRequestHandlers\<close> run over the handlers \<open>hs1\<close> and
  leave the response ended (or leave by a thrown error). Then, whatever handlers \<open>hs2\<close>
  are registered after them, the loop over all of them gives the same result, state and
  history of checks: no check and no callback of \<open>hs2\<close> is evaluated, also where the
  check would have matched. The same holds for the loop of \<open>runErrorHandlers\<close>; in
  particular no error handler runs when the response has already ended.
\<close>

theorem ended_short_circuit:
  "(requestLoop hs1 s = (r, s') \<and> (hasEnded (rs_res s') \<or> r \<noteq> None)
      \<longrightarrow> requestLoop (hs1 @ hs2) s = (r, s'))
   \<and> (errorLoop es1 err t = (r', t') \<and> (hasEnded (es_res t') \<or> r' \<noteq> None)
      \<longrightarrow> errorLoop (es1 @ es2) err t = (r', t'))"
  by (cases r; cases r') (auto simp: requestLoop_append errorLoop_append requestLoop_ended
      errorLoop_ended)

theorem ended_short_circuit_witness:
  "requestLoop (requestHandlers itemsRouter @ [RequestHandler (\<lambda>req. (Matched, req)) failing])
      (init_run_state (request ''GET'' ''/items'') (new_EResponse defaultConfig)) =
     (None, \<lparr>rs_req = request ''GET'' ''/items'',
        rs_res = sendStatus 200 (new_EResponse defaultConfig),
        checkResult = Some Matched, allowedMethods = [],
        evaluated = [Matched, Matched]\<rparr>)
   \<and> errorLoop ([] @ [defaultErrorMiddleware stringifyExample True]) ErrorNotFound
      \<lparr>es_req = request ''GET'' ''/items'',
       es_res = sendStatus 200 (new_EResponse defaultConfig), es_evaluated = []\<rparr> =
     (None, \<lparr>es_req = request ''GET'' ''/items'',
       es_res = sendStatus 200 (new_EResponse defaultConfig), es_evaluated = []\<rparr>)"
  using
    ended_short_circuit [where ?hs1.0 = "requestHandlers itemsRouter"
      and ?hs2.0 = "[RequestHandler (\<lambda>req. (Matched, req)) failing]"
      and s = "init_run_state (request ''GET'' ''/items'') (new_EResponse defaultConfig)"
      and r = None
      and s' = "\<lparr>rs_req = request ''GET'' ''/items'',
        rs_res = sendStatus 200 (new_EResponse defaultConfig),
        checkResult = Some Matched, allowedMethods = [], evaluated = [Matched, Matched]\<rparr>"
      and ?es1.0 = "[]" and ?es2.0 = "[defaultErrorMiddleware stringifyExample True]"
      and err = ErrorNotFound and r' = None
      and t = "\<lparr>es_req = request ''GET'' ''/items'',
        es_res = sendStatus 200 (new_EResponse defaultConfig), es_evaluated = []\<rparr>"
      and t' = "\<lparr>es_req = request ''GET'' ''/items'',
        es_res = sendStatus 200 (new_EResponse defaultConfig), es_evaluated = []\<rparr>"]
    itemsRouter_GET_items
  by (simp add: sendStatus_def)

section \<open>How the request-handler chain fails\<close>

text \<open>
  Claim C2, as amended. When a callback throws, the chain fails with the error thrown.
  Otherwise the outcome is decided by the history of the loop alone: the chain fails with
  \<open>ErrorMethodNotAllowed\<close> when a non-empty method mismatch was recorded; else with
  \<open>ErrorNotFound\<close> when the last check result the loop computed is \<open>NotFound\<close>;
  else it does not fail. So it fails with \<open>ErrorNotFound\<close> exactly when no non-empty
  method mismatch was recorded and the last check result is \<open>NotFound\<close>: handlers
  that matched earlier in the chain do not prevent it. A chain in which no check was
  computed (no handler registered, or a response that has already ended) does not fail.
\<close>

theorem notFound_iff_last_check:
  "(case requestLoop (requestHandlers router) (init_run_state req res) of
      (Some e, s) \<Rightarrow> runRequestHandlers router req res = (Some e, s)
    | (None, s) \<Rightarrow>
        runRequestHandlers router req res =
          (if mismatches (evaluated s) \<noteq> []
           then Some (ErrorMethodNotAllowed (mismatches (evaluated s)))
           else if evaluated s \<noteq> [] \<and> last (evaluated s) = NotFound then Some ErrorNotFound
           else None, s) \<and>
        (fst (runRequestHandlers router req res) = Some ErrorNotFound \<longleftrightarrow>
           mismatches (evaluated s) = [] \<and> evaluated s \<noteq> [] \<and> last (evaluated s) = NotFound) \<and>
        (evaluated s = [] \<longrightarrow> fst (runRequestHandlers router req res) = None))
   \<and> (requestHandlers router = [] \<or> hasEnded res \<longrightarrow>
        runRequestHandlers router req res = (None, init_run_state req res))"
proof -
  have idle: "runRequestHandlers router req res = (None, init_run_state req res)"
    if "requestHandlers router = [] \<or> hasEnded res"
  proof -
    from that have "requestLoop (requestHandlers router) (init_run_state req res)
        = (None, init_run_state req res)"
      by (auto simp: requestLoop_ended init_run_state_def)
    then show ?thesis by (simp add: runRequestHandlers_def init_run_state_def)
  qed
  have main: "(case requestLoop (requestHandlers router) (init_run_state req res) of
      (Some e, s) \<Rightarrow> runRequestHandlers router req res = (Some e, s)
    | (None, s) \<Rightarrow>
        runRequestHandlers router req res =
          (if mismatches (evaluated s) \<noteq> []
           then Some (ErrorMethodNotAllowed (mismatches (evaluated s)))
           else if evaluated s \<noteq> [] \<and> last (evaluated s) = NotFound then Some ErrorNotFound
           else None, s) \<and>
        (fst (runRequestHandlers router req res) = Some ErrorNotFound \<longleftrightarrow>
           mismatches (evaluated s) = [] \<and> evaluated s \<noteq> [] \<and> last (evaluated s) = NotFound) \<and>
        (evaluated s = [] \<longrightarrow> fst (runRequestHandlers router req res) = None))"
  proof (cases "requestLoop (requestHandlers router) (init_run_state req res)")
    case (Pair r s)
    show ?thesis
    proof (cases r)
      case None
      with Pair show ?thesis by (simp add: runRequestHandlers_completed)
    next
      case (Some e)
      with Pair show ?thesis by (simp add: runRequestHandlers_thrown)
    qed
  qed
  from main idle show ?thesis by blast
qed

theorem notFound_iff_last_check_witness:
  "fst (runRequestHandlers itemsRouter (request ''GET'' ''/missing'') (new_EResponse defaultConfig))
     = Some ErrorNotFound
   \<and> fst (runRequestHandlers itemsRouter (request ''GET'' ''/items'') (new_EResponse defaultConfig))
     = None
   \<and> fst (runRequestHandlers throwingRouter (request ''POST'' ''/items'')
       (new_EResponse defaultConfig)) = Some (Error ''boom'')
   \<and> fst (runRequestHandlers emptyRouter (request ''GET'' ''/items'') (new_EResponse defaultConfig))
     = None"
proof -
  have missing: "fst (runRequestHandlers itemsRouter (request ''GET'' ''/missing'')
      (new_EResponse defaultConfig)) = Some ErrorNotFound"
    using notFound_iff_last_check [where router = itemsRouter
        and req = "request ''GET'' ''/missing''" and res = "new_EResponse defaultConfig"]
    by (simp add: itemsRouter_GET_missing)
  have items: "fst (runRequestHandlers itemsRouter (request ''GET'' ''/items'')
      (new_EResponse defaultConfig)) = None"
    using notFound_iff_last_check [where router = itemsRouter
        and req = "request ''GET'' ''/items''" and res = "new_EResponse defaultConfig"]
    by (simp add: itemsRouter_GET_items)
  have thrown: "fst (runRequestHandlers throwingRouter (request ''POST'' ''/items'')
      (new_EResponse defaultConfig)) = Some (Error ''boom'')"
    using notFound_iff_last_check [where router = throwingRouter
        and req = "request ''POST'' ''/items''" and res = "new_EResponse defaultConfig"]
    by (simp add: throwingRouter_POST_items)
  have "requestHandlers emptyRouter = []" by (simp add: emptyRouter_def)
  with notFound_iff_last_check [where router = emptyRouter
        and req = "request ''GET'' ''/items''" and res = "new_EResponse defaultConfig"]
  have "runRequestHandlers emptyRouter (request ''GET'' ''/items'') (new_EResponse defaultConfig)
      = (None, init_run_state (request ''GET'' ''/items'') (new_EResponse defaultConfig))"
    by blast
  then have none: "fst (runRequestHandlers emptyRouter (request ''GET'' ''/items'')
      (new_EResponse defaultConfig)) = None"
    by simp
  from missing items thrown none show ?thesis by blast
qed

text \<open>
  The claim as it is written fails: with a middleware that matches every request and
  passes it on, registered before a route, a request for a path that no route has makes
  the chain fail with \<open>ErrorNotFound\<close> although the check of a handler returned
  \<open>Matched\<close>.
\<close>

theorem notFound_iff_last_check_counterexample:
  "Matched \<in> set (evaluated (snd (runRequestHandlers itemsRouter (request ''GET'' ''/missing'')
      (new_EResponse defaultConfig))))
   \<and> fst (runRequestHandlers itemsRouter (request ''GET'' ''/missing'')
      (new_EResponse defaultConfig)) = Some ErrorNotFound"
  by (simp add: runRequestHandlers_def itemsRouter_GET_missing)

text \<open>
  Claim C3, as amended. When the check of a handler returns \<open>MethodMismatch\<close>, the
  loop does not invoke its callback: it goes on to the next handler with the response
  untouched and the methods, when the array is not empty, pushed on \<open>allowedMethods\<close>.
  When no callback throws, the chain fails with \<open>ErrorMethodNotAllowed\<close>, carrying what
  was accumulated, exactly when a non-empty method array was accumulated, whether or not
  the check of some handler returned \<open>Matched\<close>.
\<close>

theorem methodMismatch_accumulates:
  "(rh_check a (rs_req s) = (MethodMismatch ms, rq) \<and> \<not> hasEnded (rs_res s) \<longrightarrow>
      requestLoop (a # rest) s =
        requestLoop rest
          (s\<lparr>rs_req := rq, checkResult := Some (MethodMismatch ms),
             evaluated := evaluated s @ [MethodMismatch ms],
             allowedMethods := (if ms \<noteq> [] then allowedMethods s @ [ms] else allowedMethods s)\<rparr>))
   \<and> (requestLoop (requestHandlers router) (init_run_state req res) = (None, s') \<longrightarrow>
        allowedMethods s' = mismatches (evaluated s') \<and>
        (fst (runRequestHandlers router req res)
            = Some (ErrorMethodNotAllowed (mismatches (evaluated s')))
          \<longleftrightarrow> (\<exists>ms'. MethodMismatch ms' \<in> set (evaluated s') \<and> ms' \<noteq> [])) \<and>
        ((\<exists>ams. fst (runRequestHandlers router req res) = Some (ErrorMethodNotAllowed ams))
          \<longleftrightarrow> (\<exists>ms'. MethodMismatch ms' \<in> set (evaluated s') \<and> ms' \<noteq> [])))"
proof -
  have step: "requestLoop (a # rest) s =
        requestLoop rest
          (s\<lparr>rs_req := rq, checkResult := Some (MethodMismatch ms),
             evaluated := evaluated s @ [MethodMismatch ms],
             allowedMethods := (if ms \<noteq> [] then allowedMethods s @ [ms] else allowedMethods s)\<rparr>)"
    if "rh_check a (rs_req s) = (MethodMismatch ms, rq)" "\<not> hasEnded (rs_res s)"
    using that by (simp add: Let_def)
  have nonempty: "mismatches cs \<noteq> [] \<longleftrightarrow> (\<exists>ms'. MethodMismatch ms' \<in> set cs \<and> ms' \<noteq> [])" for cs
    using set_mismatches[of cs] by (cases "mismatches cs") auto
  have fails: "allowedMethods s' = mismatches (evaluated s') \<and>
        (fst (runRequestHandlers router req res)
            = Some (ErrorMethodNotAllowed (mismatches (evaluated s')))
          \<longleftrightarrow> (\<exists>ms'. MethodMismatch ms' \<in> set (evaluated s') \<and> ms' \<noteq> [])) \<and>
        ((\<exists>ams. fst (runRequestHandlers router req res) = Some (ErrorMethodNotAllowed ams))
          \<longleftrightarrow> (\<exists>ms'. MethodMismatch ms' \<in> set (evaluated s') \<and> ms' \<noteq> []))"
    if run: "requestLoop (requestHandlers router) (init_run_state req res) = (None, s')"
    using requestLoop_init(1)[OF run] nonempty[of "evaluated s'"]
    by (auto simp: runRequestHandlers_completed[OF run])
  from step fails show ?thesis by blast
qed

theorem methodMismatch_accumulates_witness:
  "requestLoop
      [RequestHandler (routeMatcher exactMatcher defaultConfig [''GET''] ''/items'') failing]
      (init_run_state (request ''POST'' ''/items'') (new_EResponse defaultConfig)) =
     (None, \<lparr>rs_req = request ''POST'' ''/items'', rs_res = new_EResponse defaultConfig,
        checkResult = Some (MethodMismatch [''GET'']), allowedMethods = [[''GET'']],
        evaluated = [MethodMismatch [''GET'']]\<rparr>)
   \<and> fst (runRequestHandlers itemsRouter (request ''POST'' ''/items'') (new_EResponse defaultConfig))
     = Some (ErrorMethodNotAllowed [[''GET'']])"
  using
    methodMismatch_accumulates [where
      a = "RequestHandler (routeMatcher exactMatcher defaultConfig [''GET''] ''/items'') failing"
      and rest = "[]"
      and s = "init_run_state (request ''POST'' ''/items'') (new_EResponse defaultConfig)"
      and ms = "[''GET'']" and rq = "request ''POST'' ''/items''"
      and router = itemsRouter and req = "request ''POST'' ''/items''"
      and res = "new_EResponse defaultConfig"
      and s' = "\<lparr>rs_req = request ''POST'' ''/items'', rs_res = new_EResponse defaultConfig,
        checkResult = Some (MethodMismatch [''GET'']), allowedMethods = [[''GET'']],
        evaluated = [Matched, MethodMismatch [''GET'']]\<rparr>"]
    itemsRouter_POST_items
  by (simp add: init_run_state_def items_checks hasEnded_new_EResponse)

text \<open>
  The claim as it is written fails: with a middleware that matches every request and
  passes it on, and a route for GET, a POST request for the path of the route makes the
  chain fail with \<open>ErrorMethodNotAllowed\<close> although the check of a handler returned
  \<open>Matched\<close>.
\<close>

theorem methodMismatch_accumulates_counterexample:
  "Matched \<in> set (evaluated (snd (runRequestHandlers itemsRouter (request ''POST'' ''/items'')
      (new_EResponse defaultConfig))))
   \<and> fst (runRequestHandlers itemsRouter (request ''POST'' ''/items'')
      (new_EResponse defaultConfig)) = Some (ErrorMethodNotAllowed [[''GET'']])"
  by (simp add: runRequestHandlers_def itemsRouter_POST_items)

section \<open>One dispatch\<close>

lemma use_error_callback:
  "use pm (Inr (ErrorCallback f)) None router =
     Inr (router\<lparr>errorHandlers := errorHandlers router @ [ErrorMiddleware (\<lambda>req. (Matched, req)) f]\<rparr>)"
  by (simp add: use_def)

lemma handler_completed:
  "runRequestHandlers router req (new_EResponse (config router)) = (None, s) \<Longrightarrow>
     handler pm stringify router req = (serializeResponse (rs_res s), router)"
  by (simp add: handler_def)

lemma handler_failed:
  "runRequestHandlers router req (new_EResponse (config router)) = (Some err, s) \<Longrightarrow>
     handler pm stringify router req =
       (case errorLoop
               (errorHandlers router @ [defaultErrorMiddleware stringify (auto405 (config router))])
               err \<lparr>es_req = rs_req s, es_res = rs_res s, es_evaluated = []\<rparr> of
          (None, es) \<Rightarrow> serializeResponse (es_res es)
        | (Some e, es) \<Rightarrow> Inl e,
        router\<lparr>errorHandlers := errorHandlers router @
          [defaultErrorMiddleware stringify (auto405 (config router))]\<rparr>)"
  by (simp add: handler_def use_error_callback runErrorHandlers_def defaultErrorMiddleware_def
      split: prod.splits option.splits)

lemma defaultErrorHandler_ends:
  "fst (defaultErrorHandler stringify a err rq rs) = None"
  "fst (snd (defaultErrorHandler stringify a err rq rs)) = rq"
  "hasEnded (snd (snd (defaultErrorHandler stringify a err rq rs)))"
  by (simp_all add: defaultErrorHandler_def sendStatus_def json_def)

lemma errorLoop_default:
  assumes "\<not> hasEnded (es_res t)"
  shows "errorLoop (defaultErrorMiddleware stringify a # rest) err t =
     (None, t\<lparr>es_evaluated := es_evaluated t @ [Matched],
              es_res := snd (snd (defaultErrorHandler stringify a err (es_req t) (es_res t)))\<rparr>)"
proof -
  obtain thrown rq' res' where run:
    "defaultErrorHandler stringify a err (es_req t) (es_res t) = (thrown, rq', res')"
    by (cases "defaultErrorHandler stringify a err (es_req t) (es_res t)")
  with defaultErrorHandler_ends[of stringify a err "es_req t" "es_res t"]
  have "thrown = None" "rq' = es_req t" "hasEnded res'" by simp_all
  with assms run show ?thesis
    by (simp add: defaultErrorMiddleware_def errorLoop_ended)
qed

lemma defaultErrorHandler_methodNotAllowed:
  "status (snd (snd (defaultErrorHandler stringify a (ErrorMethodNotAllowed ams) rq rs)))
     = (if a then 405 else 404)"
  "a \<Longrightarrow> headers_getAll ''Allow''
       (res_headers (snd (snd (defaultErrorHandler stringify a (ErrorMethodNotAllowed ams) rq rs))))
     = [allow (ErrorMethodNotAllowed ams)]"
  by (simp_all add: defaultErrorHandler_def sendStatus_def headers_getAll_set_same)

text \<open>
  Claim C1, as amended. Take a dispatch in which no callback throws and the check of at
  least one request handler returns \<open>MethodMismatch\<close> with a non-empty array of
  methods. Then the request-handler chain fails with \<open>ErrorMethodNotAllowed\<close> carrying
  the accumulated method arrays, that array among them, and so never with
  \<open>ErrorNotFound\<close>. If moreover no handler ended the response and the error handlers
  that the application registered (those before the copies of the default error handler
  that earlier dispatches left in the list) neither end the response nor throw, the
  response has status 405 and the \<open>Allow\<close> header of the comma-joined methods when
  \<open>auto405\<close> is on, and status 404 when it is off.
\<close>

theorem methodMismatch_precedence:
  assumes completed:
      "requestLoop (requestHandlers router)
         (init_run_state req (new_EResponse (config router))) = (None, s)"
    and mismatch: "MethodMismatch ms \<in> set (evaluated s)" "ms \<noteq> []"
  shows "runRequestHandlers router req (new_EResponse (config router))
        = (Some (ErrorMethodNotAllowed (mismatches (evaluated s))), s)
     \<and> allowedMethods s = mismatches (evaluated s)
     \<and> ms \<in> set (mismatches (evaluated s))
     \<and> fst (runRequestHandlers router req (new_EResponse (config router))) \<noteq> Some ErrorNotFound
     \<and> (\<not> hasEnded (rs_res s)
        \<and> errorHandlers router
            = us @ replicate k (defaultErrorMiddleware stringify (auto405 (config router)))
        \<and> errorLoop us (ErrorMethodNotAllowed (mismatches (evaluated s)))
            \<lparr>es_req = rs_req s, es_res = rs_res s, es_evaluated = []\<rparr> = (None, es)
        \<and> \<not> hasEnded (es_res es)
        \<longrightarrow> (\<exists>resp. fst (handler pm stringify router req) = Inr resp
              \<and> resp_status resp = (if auto405 (config router) then 405 else 404)
              \<and> (auto405 (config router) \<longrightarrow>
                    headers_getAll ''Allow'' (resp_headers resp)
                      = [join '','' (map (join '','') (mismatches (evaluated s)))])))"
proof -
  let ?err = "ErrorMethodNotAllowed (mismatches (evaluated s))"
  let ?a = "auto405 (config router)"
  let ?D = "defaultErrorMiddleware stringify ?a"
  from mismatch have member: "ms \<in> set (mismatches (evaluated s))"
    by (simp add: set_mismatches)
  then have nonempty: "mismatches (evaluated s) \<noteq> []" by auto
  with completed have failed:
    "runRequestHandlers router req (new_EResponse (config router)) = (Some ?err, s)"
    by (simp add: runRequestHandlers_completed)
  have dispatch: "\<exists>resp. fst (handler pm stringify router req) = Inr resp
        \<and> resp_status resp = (if ?a then 405 else 404)
        \<and> (?a \<longrightarrow>
              headers_getAll ''Allow'' (resp_headers resp)
                = [join '','' (map (join '','') (mismatches (evaluated s)))])"
    if user: "errorHandlers router = us @ replicate k ?D"
      "errorLoop us ?err \<lparr>es_req = rs_req s, es_res = rs_res s, es_evaluated = []\<rparr> = (None, es)"
      "\<not> hasEnded (es_res es)"
  proof -
    let ?res = "snd (snd (defaultErrorHandler stringify ?a ?err (es_req es) (es_res es)))"
    have "errorHandlers router @ [?D] = us @ (?D # replicate k ?D)"
      by (simp add: user(1) replicate_append_same)
    then have "errorLoop (errorHandlers router @ [?D]) ?err
          \<lparr>es_req = rs_req s, es_res = rs_res s, es_evaluated = []\<rparr>
        = errorLoop (?D # replicate k ?D) ?err es"
      by (simp add: errorLoop_append user(2))
    also have "\<dots> = (None, es\<lparr>es_evaluated := es_evaluated es @ [Matched], es_res := ?res\<rparr>)"
      using user(3) by (rule errorLoop_default)
    finally have out: "fst (handler pm stringify router req) = serializeResponse ?res"
      by (simp add: handler_failed[OF failed])
    have st: "status ?res = (if ?a then 405 else 404)"
      by (rule defaultErrorHandler_methodNotAllowed(1))
    then have "accepted ?res"
      by (cases ?a) (simp_all add: accepted_def passedStatus_def nullBodyStatus_def)
    then obtain resp where resp: "serializeResponse ?res = Inr resp"
      using serializeResponse_accepted by blast
    from st have "passedStatus ?res = status ?res"
      by (cases ?a) (simp_all add: passedStatus_def)
    with serializeResponse_Inr(2)[OF resp] have "resp_status resp = status ?res" by simp
    also note st
    finally have "resp_status resp = (if ?a then 405 else 404)" .
    moreover have "headers_getAll ''Allow'' (resp_headers resp)
        = [join '','' (map (join '','') (mismatches (evaluated s)))]" if ?a
      using that defaultErrorHandler_methodNotAllowed(2)[of ?a stringify "mismatches (evaluated s)"]
      by (simp add: headers_getAll_serializeResponse_other[OF resp] toLowerCase_names)
    ultimately show ?thesis using out resp by auto
  qed
  from failed member dispatch requestLoop_init(1)[OF completed] show ?thesis by simp
qed

lemma handler_default_only:
  assumes "runRequestHandlers router req (new_EResponse (config router)) = (Some err, s)"
    and "errorHandlers router = []" and "\<not> hasEnded (rs_res s)"
  shows "fst (handler pm stringify router req) =
     serializeResponse (snd (snd
       (defaultErrorHandler stringify (auto405 (config router)) err (rs_req s) (rs_res s))))"
proof -
  let ?t = "\<lparr>es_req = rs_req s, es_res = rs_res s, es_evaluated = []\<rparr>"
  have "errorLoop [defaultErrorMiddleware stringify (auto405 (config router))] err ?t =
      (None, ?t\<lparr>es_evaluated := es_evaluated ?t @ [Matched],
         es_res := snd (snd (defaultErrorHandler stringify (auto405 (config router)) err
           (es_req ?t) (es_res ?t)))\<rparr>)"
    by (rule errorLoop_default) (simp add: assms(3))
  then show ?thesis
    by (simp add: handler_failed[OF assms(1)] assms(2) del: errorLoop.simps)
qed

theorem methodMismatch_precedence_witness:
  "runRequestHandlers itemsRouter (request ''POST'' ''/items'') (new_EResponse defaultConfig)
     = (Some (ErrorMethodNotAllowed [[''GET'']]),
        \<lparr>rs_req = request ''POST'' ''/items'', rs_res = new_EResponse defaultConfig,
         checkResult = Some (MethodMismatch [''GET'']), allowedMethods = [[''GET'']],
         evaluated = [Matched, MethodMismatch [''GET'']]\<rparr>)
   \<and> (\<exists>resp. fst (handler exactMatcher stringifyExample itemsRouter (request ''POST'' ''/items''))
         = Inr resp
       \<and> resp_status resp = 405 \<and> headers_getAll ''Allow'' (resp_headers resp) = [''GET''])"
proof -
  let ?s = "\<lparr>rs_req = request ''POST'' ''/items'', rs_res = new_EResponse defaultConfig,
         checkResult = Some (MethodMismatch [''GET'']), allowedMethods = [[''GET'']],
         evaluated = [Matched, MethodMismatch [''GET'']]\<rparr>"
  have same: "new_EResponse (config itemsRouter) = new_EResponse defaultConfig"
    by (simp add: new_EResponse_def)
  have completed: "requestLoop (requestHandlers itemsRouter)
      (init_run_state (request ''POST'' ''/items'') (new_EResponse (config itemsRouter))) = (None, ?s)"
    unfolding same by (rule itemsRouter_POST_items)
  have mismatch: "MethodMismatch [''GET''] \<in> set (evaluated ?s)" "[''GET''] \<noteq> []"
    by simp_all
  from methodMismatch_precedence [OF completed mismatch, where us = "[]" and k = 0
      and stringify = stringifyExample and pm = exactMatcher
      and es = "\<lparr>es_req = request ''POST'' ''/items'', es_res = new_EResponse defaultConfig,
        es_evaluated = []\<rparr>"]
  show ?thesis
    by (simp add: same itemsRouter_handlers hasEnded_new_EResponse defaultConfig_def)
qed

text \<open>
  The claim as it is written fails when a callback throws: with a route for GET and,
  after it, a middleware that throws, a POST request for the path of the route gets a
  \<open>MethodMismatch\<close> from the route, no handler ends the response, and the chain fails
  with the error of the middleware; the response is 500, not 405.
\<close>

theorem methodMismatch_precedence_counterexample:
  "MethodMismatch [''GET''] \<in> set (evaluated (snd (runRequestHandlers throwingRouter
      (request ''POST'' ''/items'') (new_EResponse defaultConfig))))
   \<and> \<not> hasEnded (rs_res (snd (runRequestHandlers throwingRouter
      (request ''POST'' ''/items'') (new_EResponse defaultConfig))))
   \<and> fst (runRequestHandlers throwingRouter (request ''POST'' ''/items'')
      (new_EResponse defaultConfig)) = Some (Error ''boom'')
   \<and> (\<exists>resp. fst (handler exactMatcher stringifyExample throwingRouter (request ''POST'' ''/items''))
         = Inr resp \<and> resp_status resp = 500)"
proof -
  let ?s = "\<lparr>rs_req = request ''POST'' ''/items'', rs_res = new_EResponse defaultConfig,
        checkResult = Some Matched, allowedMethods = [[''GET'']],
        evaluated = [MethodMismatch [''GET''], Matched]\<rparr>"
  have failed: "runRequestHandlers throwingRouter (request ''POST'' ''/items'')
      (new_EResponse defaultConfig) = (Some (Error ''boom''), ?s)"
    by (simp add: runRequestHandlers_def throwingRouter_POST_items)
  have same: "new_EResponse (config throwingRouter) = new_EResponse defaultConfig"
    by (simp add: new_EResponse_def)
  have "fst (handler exactMatcher stringifyExample throwingRouter (request ''POST'' ''/items''))
      = serializeResponse (snd (snd (defaultErrorHandler stringifyExample
          (auto405 (config throwingRouter)) (Error ''boom'') (rs_req ?s) (rs_res ?s))))"
    by (rule handler_default_only)
      (simp_all add: same failed throwingRouter_handlers hasEnded_new_EResponse)
  then have "\<exists>resp. fst (handler exactMatcher stringifyExample throwingRouter
      (request ''POST'' ''/items'')) = Inr resp \<and> resp_status resp = 500"
    by (simp add: serializeResponse_result accepted_def passedStatus_def nullBodyStatus_def
        defaultErrorHandler_def json_def withStatus_def new_EResponse_def)
  with failed show ?thesis by (simp add: hasEnded_new_EResponse)
qed

section \<open>The default error handler stays registered\<close>

lemma handler_router:
  "snd (handler pm stringify router req) =
     (if chainFails router req
      then router\<lparr>errorHandlers := errorHandlers router @
             [defaultErrorMiddleware stringify (auto405 (config router))]\<rparr>
      else router)"
proof (cases "runRequestHandlers router req (new_EResponse (config router))")
  case (Pair r s)
  show ?thesis
  proof (cases r)
    case None
    with Pair show ?thesis by (simp add: handler_completed chainFails_def)
  next
    case (Some err)
    with Pair show ?thesis by (simp add: handler_failed chainFails_def)
  qed
qed

lemma chainFails_errorHandlers:
  "chainFails (router\<lparr>errorHandlers := ehs\<rparr>) = chainFails router"
  by (rule ext) (simp add: chainFails_def runRequestHandlers_def)

lemma dispatches_router:
  "snd (dispatches pm stringify router reqs) =
     router\<lparr>errorHandlers := errorHandlers router @
       replicate (length (filter (chainFails router) reqs))
         (defaultErrorMiddleware stringify (auto405 (config router)))\<rparr>"
proof (induction reqs arbitrary: router)
  case Nil
  show ?case by simp
next
  case (Cons req reqs)
  let ?D = "defaultErrorMiddleware stringify (auto405 (config router))"
  obtain out router' where h: "handler pm stringify router req = (out, router')"
    by (cases "handler pm stringify router req")
  then have r': "router' = (if chainFails router req
      then router\<lparr>errorHandlers := errorHandlers router @ [?D]\<rparr> else router)"
    using handler_router[of pm stringify router req] by simp
  have "snd (dispatches pm stringify router (req # reqs)) = snd (dispatches pm stringify router' reqs)"
    by (simp add: h split: prod.splits)
  also have "\<dots> = router'\<lparr>errorHandlers := errorHandlers router' @
       replicate (length (filter (chainFails router') reqs))
         (defaultErrorMiddleware stringify (auto405 (config router')))\<rparr>"
    by (rule Cons.IH)
  also have "\<dots> = router\<lparr>errorHandlers := errorHandlers router @
       replicate (length (filter (chainFails router) (req # reqs))) ?D\<rparr>"
  proof (cases "chainFails router req")
    case True
    then have "filter (chainFails router') reqs = filter (chainFails router) reqs"
      by (simp add: r' chainFails_errorHandlers)
    with True show ?thesis by (simp add: r' replicate_append_same)
  next
    case False
    then show ?thesis by (simp add: r')
  qed
  finally show ?case .
qed

text \<open>
  Claim C10. A dispatch whose request-handler chain fails leaves the router with one more
  error handler at the end of its list: the default error handler, registered through
  \<open>use\<close>, which files it as an error handler because its callback has three
  parameters. Nothing else of the router changes and nothing removes the handler: after
  successive dispatches on one router, all of which fail, the list of error handlers is
  the list before them followed by one copy of the default error handler for each
  dispatch. (In general, by one copy for each dispatch that failed.)
\<close>

theorem failing_dispatch_keeps_default_handler:
  "(chainFails router req \<longrightarrow>
      snd (handler pm stringify router req) =
        router\<lparr>errorHandlers := errorHandlers router @
          [defaultErrorMiddleware stringify (auto405 (config router))]\<rparr>
      \<and> use pm (Inr (ErrorCallback (defaultErrorHandler stringify (auto405 (config router)))))
            None router = Inr (snd (handler pm stringify router req)))
   \<and> (list_all (chainFails router) reqs \<longrightarrow>
      errorHandlers (snd (dispatches pm stringify router reqs)) =
        errorHandlers router @
          replicate (length reqs) (defaultErrorMiddleware stringify (auto405 (config router)))
      \<and> requestHandlers (snd (dispatches pm stringify router reqs)) = requestHandlers router
      \<and> config (snd (dispatches pm stringify router reqs)) = config router)
   \<and> errorHandlers (snd (dispatches pm stringify router reqs)) =
        errorHandlers router @
          replicate (length (filter (chainFails router) reqs))
            (defaultErrorMiddleware stringify (auto405 (config router)))"
proof -
  have "filter (chainFails router) reqs = reqs" if "list_all (chainFails router) reqs"
    using that by (simp add: list_all_iff)
  then show ?thesis
    by (auto simp: handler_router dispatches_router use_error_callback
        defaultErrorMiddleware_def)
qed

lemma itemsRouter_fails:
  "chainFails itemsRouter (request ''POST'' ''/items'')"
  "chainFails itemsRouter (request ''GET'' ''/missing'')"
  "\<not> chainFails itemsRouter (request ''GET'' ''/items'')"
  by (simp_all add: chainFails_def itemsRouter_handlers(3) runRequestHandlers_def
      itemsRouter_POST_items itemsRouter_GET_missing itemsRouter_GET_items)

theorem failing_dispatch_keeps_default_handler_witness:
  "errorHandlers (snd (handler exactMatcher stringifyExample itemsRouter (request ''POST'' ''/items'')))
     = [defaultErrorMiddleware stringifyExample True]
   \<and> errorHandlers (snd (dispatches exactMatcher stringifyExample itemsRouter
        [request ''POST'' ''/items'', request ''GET'' ''/missing'']))
     = [defaultErrorMiddleware stringifyExample True, defaultErrorMiddleware stringifyExample True]
   \<and> errorHandlers (snd (dispatches exactMatcher stringifyExample itemsRouter
        [request ''POST'' ''/items'', request ''GET'' ''/items'', request ''GET'' ''/missing'']))
     = [defaultErrorMiddleware stringifyExample True, defaultErrorMiddleware stringifyExample True]"
proof -
  let ?D = "defaultErrorMiddleware stringifyExample (auto405 (config itemsRouter))"
  let ?two = "[request ''POST'' ''/items'', request ''GET'' ''/missing'']"
  let ?three = "[request ''POST'' ''/items'', request ''GET'' ''/items'', request ''GET'' ''/missing'']"
  note two = failing_dispatch_keeps_default_handler [where router = itemsRouter
      and req = "request ''POST'' ''/items''" and pm = exactMatcher
      and stringify = stringifyExample and reqs = ?two]
  note three = failing_dispatch_keeps_default_handler [where router = itemsRouter
      and req = "request ''POST'' ''/items''" and pm = exactMatcher
      and stringify = stringifyExample and reqs = ?three]
  have flag: "auto405 (config itemsRouter) = True"
    by (simp add: itemsRouter_handlers(3) defaultConfig_def)
  have all: "list_all (chainFails itemsRouter) ?two"
    by (simp add: itemsRouter_fails)
  have failing: "filter (chainFails itemsRouter) ?three = ?two"
    by (simp add: itemsRouter_fails)
  from two itemsRouter_fails(1)
  have "snd (handler exactMatcher stringifyExample itemsRouter (request ''POST'' ''/items'')) =
      itemsRouter\<lparr>errorHandlers := errorHandlers itemsRouter @ [?D]\<rparr>"
    by blast
  then have one: "errorHandlers (snd (handler exactMatcher stringifyExample itemsRouter
      (request ''POST'' ''/items''))) = [?D]"
    by (simp add: itemsRouter_handlers(2))
  from two all
  have "errorHandlers (snd (dispatches exactMatcher stringifyExample itemsRouter ?two)) =
      errorHandlers itemsRouter @ replicate (length ?two) ?D"
    by blast
  then have both: "errorHandlers (snd (dispatches exactMatcher stringifyExample itemsRouter ?two))
      = [?D, ?D]"
    by (simp add: itemsRouter_handlers(2) del: dispatches.simps)
  from three
  have "errorHandlers (snd (dispatches exactMatcher stringifyExample itemsRouter ?three)) =
      errorHandlers itemsRouter @ replicate (length (filter (chainFails itemsRouter) ?three)) ?D"
    by blast
  then have mixed: "errorHandlers (snd (dispatches exactMatcher stringifyExample itemsRouter ?three))
      = [?D, ?D]"
    unfolding failing by (simp add: itemsRouter_handlers(2) del: dispatches.simps)
  from one both mixed show ?thesis unfolding flag by blast
qed

end
